theory Spec2Isabelle
  imports Complex_Main "HOL-Library.AList" "HOL-Library.Sublist"
begin

chapter \<open>Retrieval and indexing core of the Paperless question-answering agent\<close>

text \<open>
  The development embeds the chunker and the indexer of \<^verbatim>\<open>document_indexer.py\<close>, the
  filter conversion of \<^verbatim>\<open>metadata_extractor.py\<close> and the retrieval, answer composition and
  confidence estimation of \<^verbatim>\<open>qa_system.py\<close>.  Python strings are modelled as \<^typ>\<open>string\<close>
  (one \<^typ>\<open>char\<close> per code point below 256), Python integers as \<^typ>\<open>int\<close>, floats as
  the reals that are binary64 numbers, every operation on them rounded, and exceptions as
  values of a sum type.  The first part holds every definition, the second part the lemmas
  and theorems.
\<close>

section \<open>Definitions\<close>

subsection \<open>Python string and sequence primitives\<close>

text \<open>\<^verbatim>\<open>str.isspace\<close> on the code points below 256.\<close>

definition is_space :: "char \<Rightarrow> bool" where
  "is_space c = (of_char c \<in> {9, 10, 11, 12, 13, 28, 29, 30, 31, 32, 133, 160 :: nat})"

text \<open>\<^verbatim>\<open>s.strip()\<close>: leading and trailing whitespace removed.\<close>

definition strip :: "string \<Rightarrow> string" where
  "strip s = rev (dropWhile is_space (rev (dropWhile is_space s)))"

text \<open>A string carries no leading and no trailing whitespace (the empty string included).\<close>

definition trimmed :: "string \<Rightarrow> bool" where
  "trimmed s = (s = [] \<or> (\<not> is_space (hd s) \<and> \<not> is_space (last s)))"

text \<open>
  Python normalises a slice bound against the length \<open>n\<close>: a negative bound counts from the
  end and is clipped at 0, a bound beyond the end is clipped at \<open>n\<close>.
\<close>

definition clamp_index :: "int \<Rightarrow> nat \<Rightarrow> nat" where
  "clamp_index i n = (if i < 0 then nat (max (i + int n) 0) else min (nat i) n)"

text \<open>\<^verbatim>\<open>xs[i:j]\<close>; the result is empty when the normalised bounds cross.\<close>

definition slice :: "'a list \<Rightarrow> int \<Rightarrow> int \<Rightarrow> 'a list" where
  "slice xs i j =
     (let lo = clamp_index i (length xs); hi = clamp_index j (length xs)
      in take (hi - lo) (drop lo xs))"

text \<open>\<^verbatim>\<open>s.rfind(c)\<close> for a single character: the highest index holding \<open>c\<close>, or \<open>-1\<close>.\<close>

primrec rfind_from :: "char \<Rightarrow> string \<Rightarrow> int \<Rightarrow> int \<Rightarrow> int" where
  "rfind_from c [] i found = found"
| "rfind_from c (x # xs) i found = rfind_from c xs (i + 1) (if x = c then i else found)"

definition rfind :: "string \<Rightarrow> char \<Rightarrow> int" where
  "rfind s c = rfind_from c s 0 (- 1)"

subsection \<open>Python floats\<close>

text \<open>
  A Python float is a binary64 number: an integer of at most 53 bits times a power of two.
  \<open>py_float x\<close> is \<open>x\<close> rounded to the nearest such number, a tie going to the even
  integer, as every float operation and every float literal of Python does: the literal
  \<^verbatim>\<open>0.3\<close> is \<open>py_float 0.3\<close>, and \<^verbatim>\<open>a + b\<close> on floats is \<open>py_float (a + b)\<close>.  The range of
  the exponent is not bounded here, so overflow and subnormal numbers are left out.
  \<^verbatim>\<open>sum\<close> adds from left to right, rounding each partial sum, as CPython does before
  version 3.12.
\<close>

definition round_half_even :: "real \<Rightarrow> int" where
  "round_half_even q =
     (let f = \<lfloor>q\<rfloor>; r = q - of_int f
      in if r < 1 / 2 then f else if 1 / 2 < r then f + 1 else if even f then f else f + 1)"

text \<open>Scaling by powers of two until \<open>2 ^ 52 \<le> q < 2 ^ 53\<close>, with the exponent.\<close>

fun normalise :: "nat \<Rightarrow> real \<Rightarrow> int \<Rightarrow> real \<times> int" where
  "normalise 0 q e = (q, e)"
| "normalise (Suc n) q e =
     (if q < 2 ^ 52 then normalise n (q * 2) (e - 1)
      else if 2 ^ 53 \<le> q then normalise n (q / 2) (e + 1)
      else (q, e))"

definition pow2 :: "int \<Rightarrow> real" where
  "pow2 e = (if 0 \<le> e then 2 ^ nat e else 1 / 2 ^ nat (- e))"

definition py_float :: "real \<Rightarrow> real" where
  "py_float x =
     (if x = 0 then 0
      else (case normalise 2200 \<bar>x\<bar> 0 of
              (q, e) \<Rightarrow> sgn x * of_int (round_half_even q) * pow2 e))"

subsection \<open>The chunker (\<^verbatim>\<open>DocumentIndexer._chunk_text\<close>)\<close>

text \<open>
  One pass of the loop body up to the append: the window \<^verbatim>\<open>text[start:end]\<close>, cut back to the
  last full stop or line feed when the window does not reach the end of the text and the
  split point lies beyond half of \<open>chunk_size\<close>.  The result is the chunk before stripping
  and the value of \<^verbatim>\<open>end\<close>.  The product \<^verbatim>\<open>chunk_size * 0.5\<close> is exact for a chunk size below
  \<open>2 ^ 53\<close>, and Python compares an integer with a float exactly.
\<close>

definition window :: "string \<Rightarrow> int \<Rightarrow> int \<Rightarrow> string \<times> int" where
  "window text chunk_size start =
     (let end0 = start + chunk_size;
          chunk = slice text start end0
      in if end0 < int (length text) then
           (let last_period = rfind chunk (CHR ''.'');
                last_newline = rfind chunk (CHR 0x0A);
                split_point = max last_period last_newline
            in if real_of_int split_point > real_of_int chunk_size * 0.5
               then (slice chunk 0 (split_point + 1), start + split_point + 1)
               else (chunk, end0))
         else (chunk, end0))"

text \<open>
  The \<^verbatim>\<open>while start < len(text)\<close> loop.  The loop need not terminate, so the result is an
  option: \<open>None\<close> stands for a run that never returns.
\<close>

partial_function (option) chunk_loop ::
  "string \<Rightarrow> int \<Rightarrow> int \<Rightarrow> int \<Rightarrow> string list \<Rightarrow> string list option" where
  "chunk_loop text chunk_size overlap start chunks =
     (if start < int (length text) then
        (case window text chunk_size start of
           (chunk, end) \<Rightarrow>
             chunk_loop text chunk_size overlap (end - overlap) (chunks @ [strip chunk]))
      else Some chunks)"

declare chunk_loop.simps [code]

definition chunk_text :: "string \<Rightarrow> int \<Rightarrow> int \<Rightarrow> string list option" where
  "chunk_text text chunk_size overlap =
     (if text = [] \<or> int (length text) \<le> chunk_size then Some [text]
      else chunk_loop text chunk_size overlap 0 [])"

subsection \<open>Identifiers of the vector store\<close>

text \<open>\<^verbatim>\<open>str(n)\<close> for an integer: decimal digits, with a minus sign for a negative number.\<close>

fun digits_of :: "nat \<Rightarrow> string" where
  "digits_of n =
     (if n < 10 then [''0123456789'' ! n]
      else digits_of (n div 10) @ [''0123456789'' ! (n mod 10)])"

declare digits_of.simps [simp del]

definition str_int :: "int \<Rightarrow> string" where
  "str_int i = (if i < 0 then CHR ''-'' # digits_of (nat (- i)) else digits_of (nat i))"

text \<open>
  \<^verbatim>\<open>doc_id: Union[int, str]\<close>: a Paperless document id or a chunk id such as
  \<^verbatim>\<open>"123_chunk_0"\<close>.  Both branches of the \<^verbatim>\<open>isinstance\<close> test format \<^verbatim>\<open>f"doc_{doc_id}"\<close>.
\<close>

datatype ident = IntId int | StrId string

fun chroma_id :: "ident \<Rightarrow> string" where
  "chroma_id (IntId i) = ''doc_'' @ str_int i"
| "chroma_id (StrId s) = ''doc_'' @ s"

definition first_chunk_id :: "int \<Rightarrow> string" where
  "first_chunk_id doc_id = str_int doc_id @ ''_chunk_0''"

definition chunk_doc_id :: "int \<Rightarrow> nat \<Rightarrow> string" where
  "chunk_doc_id doc_id chunk_idx = str_int doc_id @ ''_chunk_'' @ str_int (int chunk_idx)"

subsection \<open>Documents, the collection and the services\<close>

text \<open>
  A document as \<^verbatim>\<open>PaperlessClient.get_document\<close> returns it.  \<open>None\<close> in a field stands for a
  key that is absent or null; every reader of the field treats both alike.
\<close>

record document =
  d_id :: int
  d_title :: "string option"
  d_content :: "string option"
  d_correspondent_name :: "string option"
  d_document_type_name :: "string option"
  d_created :: "string option"
  d_tag_names :: "string list option"
  d_archive_serial_number :: "int option"

text \<open>An entry of the ChromaDB collection, and the collection with the calls made so far.\<close>

record entry =
  e_text :: string
  e_embedding :: "real list"
  e_metadata :: "(string \<times> string) list"

record world =
  collection :: "string \<rightharpoonup> entry"
  fetched :: "int list"
  embedded :: "string list"
  add_calls :: "string list"

text \<open>
  The external collaborators.  Each may answer differently from call to call, so each
  reads the current world.  \<^verbatim>\<open>get_document\<close> yields \<open>None\<close> and \<^verbatim>\<open>generate_embedding\<close>
  yields \<open>[]\<close> on failure, as the clients in \<^verbatim>\<open>paperless_client.py\<close> and
  \<^verbatim>\<open>embedding_service.py\<close> do.
\<close>

record services =
  paperless_get_document :: "world \<Rightarrow> int \<Rightarrow> document option"
  paperless_get_all_documents :: "world \<Rightarrow> document list"
  generate_embedding :: "world \<Rightarrow> string \<Rightarrow> real list"
  collection_add_raises :: "world \<Rightarrow> string \<Rightarrow> bool"

text \<open>
  \<^verbatim>\<open>VectorStore.document_exists\<close> and \<^verbatim>\<open>VectorStore.add_document\<close>.  The collection is taken
  as the vector store of the specification (section 6): \<^verbatim>\<open>exists\<close> is a lookup, and \<^verbatim>\<open>add\<close>
  either fails, leaving the collection as it was, or ends with the identifier present.
\<close>

definition document_exists :: "world \<Rightarrow> ident \<Rightarrow> bool" where
  "document_exists w doc_id = (collection w (chroma_id doc_id) \<noteq> None)"

definition add_document ::
  "services \<Rightarrow> ident \<Rightarrow> string \<Rightarrow> real list \<Rightarrow> (string \<times> string) list \<Rightarrow> world \<Rightarrow> bool \<times> world" where
  "add_document svc doc_id text embedding metadata w =
     (let cid = chroma_id doc_id;
          w1 = w\<lparr>add_calls := add_calls w @ [cid]\<rparr>
      in if collection_add_raises svc w cid then (False, w1)
         else (True,
               w1\<lparr>collection :=
                   (if collection w cid = None
                    then (collection w)(cid \<mapsto>
                           \<lparr>e_text = text, e_embedding = embedding, e_metadata = metadata\<rparr>)
                    else collection w)\<rparr>))"

subsection \<open>The indexer (\<^verbatim>\<open>DocumentIndexer\<close>)\<close>

definition py_join :: "string \<Rightarrow> string list \<Rightarrow> string" where
  "py_join sep xs = (case xs of [] \<Rightarrow> [] | y # ys \<Rightarrow> y @ concat (map (\<lambda>z. sep @ z) ys))"

definition get_str :: "string option \<Rightarrow> string" where
  "get_str v = (case v of None \<Rightarrow> [] | Some s \<Rightarrow> s)"

definition document_metadata :: "document \<Rightarrow> (string \<times> string) list" where
  "document_metadata document =
     [(''title'', get_str (d_title document)),
      (''correspondent'', get_str (d_correspondent_name document)),
      (''document_type'', get_str (d_document_type_name document)),
      (''created'', get_str (d_created document)),
      (''tags'', py_join '','' (case d_tag_names document of None \<Rightarrow> [] | Some ts \<Rightarrow> ts)),
      (''archive_serial_number'',
         (case d_archive_serial_number document of None \<Rightarrow> [] | Some n \<Rightarrow> str_int n))]"

text \<open>The loop over \<^verbatim>\<open>enumerate(chunks)\<close> of \<^verbatim>\<open>index_document\<close>.\<close>

fun index_chunks ::
  "services \<Rightarrow> int \<Rightarrow> (string \<times> string) list \<Rightarrow> nat \<Rightarrow> nat \<Rightarrow> string list \<Rightarrow> bool \<Rightarrow> world
     \<Rightarrow> bool \<times> world" where
  "index_chunks svc doc_id metadata total_chunks chunk_idx [] all_success w = (all_success, w)"
| "index_chunks svc doc_id metadata total_chunks chunk_idx (chunk # rest) all_success w =
     (let chunk_metadata =
            AList.update ''doc_id_original'' (str_int doc_id)
              (AList.update ''total_chunks'' (str_int (int total_chunks))
                (AList.update ''chunk_number'' (str_int (int chunk_idx)) metadata));
          embedding = generate_embedding svc w chunk;
          w1 = w\<lparr>embedded := embedded w @ [chunk]\<rparr>
      in if embedding = [] then
           index_chunks svc doc_id metadata total_chunks (chunk_idx + 1) rest False w1
         else
           (case add_document svc (StrId (chunk_doc_id doc_id chunk_idx))
                   (slice chunk 0 500) embedding chunk_metadata w1 of
              (success, w2) \<Rightarrow>
                index_chunks svc doc_id metadata total_chunks (chunk_idx + 1) rest
                  (all_success \<and> success) w2))"

text \<open>
  \<^verbatim>\<open>index_document\<close>.  The result is \<open>None\<close> only if the chunker does not return.
\<close>

definition index_document :: "services \<Rightarrow> int \<Rightarrow> bool \<Rightarrow> world \<Rightarrow> (bool \<times> world) option" where
  "index_document svc doc_id force_reindex w =
     (if \<not> force_reindex \<and> document_exists w (StrId (first_chunk_id doc_id)) then Some (True, w)
      else
        (let w1 = w\<lparr>fetched := fetched w @ [doc_id]\<rparr>
         in case paperless_get_document svc w doc_id of
              None \<Rightarrow> Some (False, w1)
            | Some document \<Rightarrow>
                (let content = get_str (d_content document)
                 in if content = [] then Some (False, w1)
                    else
                      (case chunk_text content 1500 200 of
                         None \<Rightarrow> None
                       | Some chunks \<Rightarrow>
                           Some (index_chunks svc doc_id (document_metadata document)
                                   (length chunks) 0 chunks True w1)))))"

text \<open>\<^verbatim>\<open>index_all_documents\<close>: the loop over the documents and the statistics.\<close>

record stats =
  indexed :: int
  skipped :: int
  failed :: int

fun index_all_loop :: "services \<Rightarrow> document list \<Rightarrow> stats \<Rightarrow> world \<Rightarrow> (stats \<times> world) option" where
  "index_all_loop svc [] st w = Some (st, w)"
| "index_all_loop svc (doc # docs) st w =
     (let doc_id = d_id doc
      in if document_exists w (IntId doc_id) then
           index_all_loop svc docs (st\<lparr>skipped := skipped st + 1\<rparr>) w
         else
           (case index_document svc doc_id False w of
              None \<Rightarrow> None
            | Some (success, w') \<Rightarrow>
                if success then index_all_loop svc docs (st\<lparr>indexed := indexed st + 1\<rparr>) w'
                else index_all_loop svc docs (st\<lparr>failed := failed st + 1\<rparr>) w'))"

definition index_all_documents :: "services \<Rightarrow> world \<Rightarrow> (stats \<times> world) option" where
  "index_all_documents svc w =
     index_all_loop svc (paperless_get_all_documents svc w)
       \<lparr>indexed = 0, skipped = 0, failed = 0\<rparr> w"


subsection \<open>Search results and filters\<close>

text \<open>
  The \<^verbatim>\<open>'distance'\<close> entry of a result dictionary: the key is absent, or it holds \<^verbatim>\<open>None\<close>
  (what \<^verbatim>\<open>VectorStore.search\<close> stores when ChromaDB returns no distances), or it holds a
  number.
\<close>

datatype dist_field = Missing | PyNone | Dist real

record search_result =
  r_doc_id :: int
  r_chunk_id :: string
  r_chunk_number :: string
  r_total_chunks :: string
  r_text :: string
  r_metadata :: "(string \<times> string) list"
  r_distance :: dist_field

text \<open>A filter dictionary; a value is a string or a list of strings (tags).\<close>

datatype fval = Str string | Strs "string list"

type_synonym filters = "(string \<times> fval) list"

text \<open>\<^verbatim>\<open>d.get(k, default)\<close> on a dictionary kept as an association list.\<close>

definition dict_get :: "('k \<times> 'v) list \<Rightarrow> 'k \<Rightarrow> 'v \<Rightarrow> 'v" where
  "dict_get d k dflt = (case map_of d k of None \<Rightarrow> dflt | Some v \<Rightarrow> v)"

text \<open>
  \<^verbatim>\<open>MetadataExtractor.convert_to_chromadb_filter\<close>.  The branches for \<^verbatim>\<open>'tags'\<close>, \<^verbatim>\<open>'year'\<close> and
  \<^verbatim>\<open>'created_year'\<close> are \<^verbatim>\<open>pass\<close>: they add nothing to the where-clause.
\<close>

definition convert_to_chromadb_filter :: "filters \<Rightarrow> filters option" where
  "convert_to_chromadb_filter extracted_filters =
     (if extracted_filters = [] then None
      else
        (let where0 = [];
             where1 = (case map_of extracted_filters ''document_type'' of
                         None \<Rightarrow> where0
                       | Some v \<Rightarrow> AList.update ''document_type'' v where0);
             where2 = (case map_of extracted_filters ''correspondent'' of
                         None \<Rightarrow> where1
                       | Some v \<Rightarrow> AList.update ''correspondent'' v where1)
         in if where2 = [] then None else Some where2))"

subsection \<open>The services of the question-answering system\<close>

text \<open>
  \<open>extract_filters\<close> is \<^verbatim>\<open>MetadataExtractor.extract_filters\<close> (regular expressions and a call
  of the language model; \<open>[]\<close> on any failure), \<open>expand_query\<close> is \<^verbatim>\<open>QASystem._expand_query\<close>
  (synonym table and optional call of the language model), \<open>embed_query\<close> is
  \<^verbatim>\<open>EmbeddingService.generate_embedding\<close> (\<open>[]\<close> on failure), \<open>vs_search\<close> is
  \<^verbatim>\<open>VectorStore.search\<close> (\<open>[]\<close> on any exception), \<open>llm_generate\<close> is
  \<^verbatim>\<open>OllamaClassifier.generate\<close> (\<open>Inr []\<close> on a failed request, \<open>Inl\<close> an exception
  it does not catch) and \<open>use_multi_query_env\<close> says whether the
  environment variable \<^verbatim>\<open>USE_MULTI_QUERY\<close> reads \<^verbatim>\<open>true\<close>.  Within one retrieval each service
  answers as a function of its arguments.
\<close>

text \<open>
  The exceptions that occur: \<^verbatim>\<open>TypeError\<close> from arithmetic and comparison on \<^verbatim>\<open>None\<close>, and
  \<^verbatim>\<open>AttributeError\<close> from \<^verbatim>\<open>OllamaClassifier.generate\<close>, which catches the exceptions of the
  request only: a reply whose \<^verbatim>\<open>response\<close> entry is null fails at \<^verbatim>\<open>.strip()\<close>.
\<close>

datatype py_error = TypeError string | AttributeError string

record qa_services =
  extract_filters :: "string \<Rightarrow> filters"
  expand_query :: "string \<Rightarrow> string"
  embed_query :: "string \<Rightarrow> real list"
  vs_search :: "real list \<Rightarrow> int \<Rightarrow> filters option \<Rightarrow> search_result list"
  llm_generate :: "string \<Rightarrow> real \<Rightarrow> py_error + string"
  use_multi_query_env :: bool

subsection \<open>Query variants (\<^verbatim>\<open>QASystem._generate_multi_queries\<close>)\<close>

text \<open>\<^verbatim>\<open>s.split('\n')\<close> for a separator of one character.\<close>

fun split_on :: "char \<Rightarrow> string \<Rightarrow> string list" where
  "split_on c [] = [] # []"
| "split_on c (x # xs) =
     (if x = c then [] # split_on c xs
      else (case split_on c xs of [] \<Rightarrow> [x] # [] | y # ys \<Rightarrow> (x # y) # ys))"

definition is_digit :: "char \<Rightarrow> bool" where
  "is_digit c = (c \<in> set ''0123456789'')"

text \<open>\<^verbatim>\<open>re.sub(r'^\d+[\.\)]\s*', '', q)\<close>.\<close>

definition strip_numbering :: "string \<Rightarrow> string" where
  "strip_numbering q =
     (let digits = takeWhile is_digit q; rest = dropWhile is_digit q
      in if digits \<noteq> [] \<and> rest \<noteq> [] \<and> (hd rest = CHR ''.'' \<or> hd rest = CHR 0x29)
         then dropWhile is_space (tl rest) else q)"

definition multi_query_prompt :: "string \<Rightarrow> int \<Rightarrow> string" where
  "multi_query_prompt original_query n_variants =
     ''Generiere '' @ str_int n_variants @ '' alternative Formulierungen f'' @ [CHR 0xFC] @
       ''r diese Frage.'' @ [CHR 0x0A] @
       ''Die Varianten sollen die gleiche Information suchen, aber anders formuliert '' @
       ''sein.'' @ [CHR 0x0A, CHR 0x0A] @ ''Original-Frage: '' @ original_query @
       [CHR 0x0A, CHR 0x0A] @ ''Aufgabe:'' @ [CHR 0x0A] @ ''- Erstelle '' @ str_int n_variants @
       '' alternative Formulierungen'' @ [CHR 0x0A] @ ''- Behalte die Kernintention bei'' @
       [CHR 0x0A] @ ''- Variiere Wortstellung, Synonyme, Perspektive'' @ [CHR 0x0A] @
       ''- Antworte NUR mit den Fragen, eine pro Zeile, KEINE Nummerierung!'' @
       [CHR 0x0A, CHR 0x0A] @ ''Varianten:''"

text \<open>The \<^verbatim>\<open>except\<close> branch returns the original query alone.\<close>

definition generate_multi_queries :: "qa_services \<Rightarrow> string \<Rightarrow> int \<Rightarrow> string list" where
  "generate_multi_queries svc original_query n_variants =
     (case llm_generate svc (multi_query_prompt original_query n_variants) (py_float 0.7) of
        Inl e \<Rightarrow> [original_query]
      | Inr response \<Rightarrow>
          if response \<noteq> [] then
            (let variants = map strip (filter (\<lambda>q. strip q \<noteq> []) (split_on (CHR 0x0A) response));
                 variants1 = map strip_numbering variants;
                 variants2 = slice variants1 0 n_variants
             in original_query # variants2)
          else [original_query])"

subsection \<open>Retrieval (\<^verbatim>\<open>QASystem.search_documents\<close>, \<^verbatim>\<open>search_documents_multi\<close>)\<close>

definition search_documents ::
  "qa_services \<Rightarrow> string \<Rightarrow> int \<Rightarrow> filters option \<Rightarrow> search_result list" where
  "search_documents svc query n_results filters =
     (let filters1 = (case filters of
                        None \<Rightarrow> convert_to_chromadb_filter (extract_filters svc query)
                      | Some f \<Rightarrow> Some f);
          expanded_query = expand_query svc query;
          query_embedding = embed_query svc expanded_query
      in if query_embedding = [] then []
         else vs_search svc query_embedding n_results filters1)"

text \<open>The loop over \<^verbatim>\<open>all_results\<close> with the set \<^verbatim>\<open>seen_docs\<close>.\<close>

fun dedup_loop :: "search_result list \<Rightarrow> int set \<Rightarrow> search_result list \<Rightarrow> search_result list" where
  "dedup_loop [] seen_docs dedup_results = dedup_results"
| "dedup_loop (result # rest) seen_docs dedup_results =
     (let doc_id = r_doc_id result
      in if doc_id \<notin> seen_docs
         then dedup_loop rest (insert doc_id seen_docs) (dedup_results @ [result])
         else dedup_loop rest seen_docs dedup_results)"

text \<open>
  \<^verbatim>\<open>x.get('distance', default)\<close>: the default for an absent key; \<open>None\<close> is Python's
  \<^verbatim>\<open>None\<close>, which the dictionary then holds under the key.
\<close>

definition get_distance :: "search_result \<Rightarrow> real \<Rightarrow> real option" where
  "get_distance x dflt =
     (case r_distance x of Missing \<Rightarrow> Some dflt | PyNone \<Rightarrow> None | Dist d \<Rightarrow> Some d)"

definition sort_key_of :: "search_result \<Rightarrow> real" where
  "sort_key_of x = (case get_distance x 999 of None \<Rightarrow> 0 | Some d \<Rightarrow> d)"

text \<open>
  \<^verbatim>\<open>dedup_results.sort(key=lambda x: x.get('distance', 999))\<close>.  The sort is stable.  A key
  \<^verbatim>\<open>None\<close> cannot be compared: with two elements or more every key is compared at least
  once, and the comparison raises \<^verbatim>\<open>TypeError\<close> (the message is only logged).
\<close>

definition sort_by_distance :: "search_result list \<Rightarrow> py_error + search_result list" where
  "sort_by_distance xs =
     (if 2 \<le> length xs \<and> (\<exists>x \<in> set xs. get_distance x 999 = None)
      then Inl (TypeError ''not supported between instances'')
      else Inr (sort_key sort_key_of xs))"

definition multi_queries :: "qa_services \<Rightarrow> string \<Rightarrow> bool \<Rightarrow> string list" where
  "multi_queries svc query use_multi_query =
     (if use_multi_query \<and> use_multi_query_env svc then generate_multi_queries svc query 2
      else [query])"

definition all_results ::
  "qa_services \<Rightarrow> string \<Rightarrow> int \<Rightarrow> bool \<Rightarrow> filters option \<Rightarrow> search_result list" where
  "all_results svc query n_results use_multi_query filters =
     (let queries = multi_queries svc query use_multi_query;
          results_per_query = max (n_results div int (length queries)) 3
      in concat (map (\<lambda>q. search_documents svc q results_per_query filters) queries))"

text \<open>The body of the \<^verbatim>\<open>try\<close> block of \<^verbatim>\<open>search_documents_multi\<close>.\<close>

definition search_documents_multi_try ::
  "qa_services \<Rightarrow> string \<Rightarrow> int \<Rightarrow> bool \<Rightarrow> filters option \<Rightarrow> py_error + search_result list" where
  "search_documents_multi_try svc query n_results use_multi_query filters =
     (let dedup_results = dedup_loop (all_results svc query n_results use_multi_query filters) {} []
      in case sort_by_distance dedup_results of
           Inl e \<Rightarrow> Inl e
         | Inr sorted_results \<Rightarrow> Inr (slice sorted_results 0 n_results))"

text \<open>The \<^verbatim>\<open>except\<close> branch falls back to the plain search.\<close>

definition search_documents_multi ::
  "qa_services \<Rightarrow> string \<Rightarrow> int \<Rightarrow> bool \<Rightarrow> filters option \<Rightarrow> search_result list" where
  "search_documents_multi svc query n_results use_multi_query filters =
     (case search_documents_multi_try svc query n_results use_multi_query filters of
        Inr final_results \<Rightarrow> final_results
      | Inl e \<Rightarrow> search_documents svc query n_results filters)"

subsection \<open>Confidence (\<^verbatim>\<open>QASystem._estimate_confidence\<close>)\<close>

datatype confidence = Low | Medium | High

text \<open>\<^verbatim>\<open>str.lower\<close> on the code points below 256.\<close>

definition py_lower_char :: "char \<Rightarrow> char" where
  "py_lower_char c =
     (let n = (of_char c :: nat)
      in if (65 \<le> n \<and> n \<le> 90) \<or> (192 \<le> n \<and> n \<le> 222 \<and> n \<noteq> 215) then char_of (n + 32) else c)"

definition py_lower :: "string \<Rightarrow> string" where
  "py_lower s = map py_lower_char s"

text \<open>\<^verbatim>\<open>sub in s\<close> for strings.\<close>

fun starts_with :: "string \<Rightarrow> string \<Rightarrow> bool" where
  "starts_with s [] = True"
| "starts_with [] (y # ys) = False"
| "starts_with (x # xs) (y # ys) = (x = y \<and> starts_with xs ys)"

fun py_in :: "string \<Rightarrow> string \<Rightarrow> bool" where
  "py_in sub [] = (sub = [])"
| "py_in sub (x # xs) = (starts_with (x # xs) sub \<or> py_in sub xs)"

definition negative_phrases :: "string list" where
  "negative_phrases =
     [''keine antwort'', ''nicht beantworten'', ''keine information'', ''nicht gefunden'',
      ''konnte nicht'', ''keine relevanten dokumente'',
      ''ich wei'' @ [CHR 0xDF] @ '' nicht'', ''unklar'']"

definition has_negative :: "string \<Rightarrow> bool" where
  "has_negative answer = list_ex (\<lambda>phrase. py_in phrase (py_lower answer)) negative_phrases"

text \<open>
  \<^verbatim>\<open>sum(top_distances)\<close>: the sum starts at the integer 0; adding \<^verbatim>\<open>None\<close> raises
  \<^verbatim>\<open>TypeError\<close>, with the type of the partial sum in the message.  Every addition is
  rounded.
\<close>

fun py_sum_from :: "real \<Rightarrow> bool \<Rightarrow> real option list \<Rightarrow> py_error + real" where
  "py_sum_from acc is_float [] = Inr acc"
| "py_sum_from acc is_float (None # xs) =
     Inl (TypeError (''unsupported operand type(s) for +: '' @
        (if is_float then [CHR 0x27] @ ''float'' @ [CHR 0x27] else [CHR 0x27] @ ''int'' @ [CHR 0x27]) @
        '' and '' @ [CHR 0x27] @ ''NoneType'' @ [CHR 0x27]))"
| "py_sum_from acc is_float (Some x # xs) = py_sum_from (py_float (acc + x)) True xs"

definition py_sum :: "real option list \<Rightarrow> py_error + real" where
  "py_sum xs = py_sum_from 0 False xs"

definition estimate_confidence :: "search_result list \<Rightarrow> string \<Rightarrow> py_error + confidence" where
  "estimate_confidence relevant_docs answer =
     (if relevant_docs = [] then Inr Low
      else
        (let score0 = (0 :: int);
             max_score = (100 :: int);
             top_distances = map (\<lambda>doc. get_distance doc 1) (slice relevant_docs 0 3)
         in case py_sum top_distances of
              Inl e \<Rightarrow> Inl e
            | Inr distance_sum \<Rightarrow>
                (let avg_distance = py_float (distance_sum / real (length top_distances));
                     score1 = (if avg_distance < py_float 0.3 then score0 + 40
                               else if avg_distance < py_float 0.5 then score0 + 30
                               else if avg_distance < py_float 0.7 then score0 + 15
                               else score0 + 5)
                 in case get_distance (hd relevant_docs) 1 of
                      None \<Rightarrow> Inl (TypeError ''not supported between instances'')
                    | Some best_distance \<Rightarrow>
                        (let score2 = (if best_distance < py_float 0.2 then score1 + 30
                                       else if best_distance < py_float 0.4 then score1 + 20
                                       else if best_distance < py_float 0.6 then score1 + 10
                                       else score1 + 3);
                             num_docs = length relevant_docs;
                             score3 = (if num_docs \<ge> 3 then score2 + 15
                                       else if num_docs \<ge> 2 then score2 + 10
                                       else score2 + 5);
                             score4 = (if has_negative answer then score3 + 0
                                       else if length answer > 100 then score3 + 15
                                       else if length answer > 50 then score3 + 10
                                       else score3 + 5);
                             confidence_percent =
                               py_float (py_float (real_of_int score4 / real_of_int max_score) * 100)
                         in if confidence_percent \<ge> 70 then Inr High
                            else if confidence_percent \<ge> 45 then Inr Medium
                            else Inr Low))))"

subsection \<open>Answers (\<^verbatim>\<open>QASystem.answer_question\<close>)\<close>

record source_ref =
  s_doc_id :: int
  s_title :: string
  s_correspondent :: string
  s_document_type :: string
  s_relevance_score :: "real option"

record answered =
  a_answer :: string
  a_sources :: "source_ref list"
  a_confidence :: confidence

text \<open>
  \<^verbatim>\<open>1 - (doc.get('distance', 0) / 2) if doc.get('distance') else None\<close>: the condition is the
  truth value of the entry, which is false for an absent key, for \<^verbatim>\<open>None\<close> and for the
  number 0.  The division and the subtraction are float operations.
\<close>

definition relevance_score :: "search_result \<Rightarrow> real option" where
  "relevance_score doc =
     (case r_distance doc of
        Dist d \<Rightarrow> if d \<noteq> 0 then Some (py_float (1 - py_float (d / 2))) else None
      | _ \<Rightarrow> None)"

definition source_of :: "search_result \<Rightarrow> source_ref" where
  "source_of doc =
     \<lparr>s_doc_id = r_doc_id doc,
      s_title = dict_get (r_metadata doc) ''title'' ''Unbekannt'',
      s_correspondent = dict_get (r_metadata doc) ''correspondent'' [],
      s_document_type = dict_get (r_metadata doc) ''document_type'' [],
      s_relevance_score = relevance_score doc\<rparr>"

definition doc_info :: "nat \<Rightarrow> search_result \<Rightarrow> string" where
  "doc_info i doc =
     ''[Dokument '' @ str_int (int i) @ '']'' @ [CHR 0x0A] @
     ''Titel: '' @ dict_get (r_metadata doc) ''title'' ''Unbekannt'' @ [CHR 0x0A] @
     (if dict_get (r_metadata doc) ''correspondent'' [] \<noteq> []
      then ''Von: '' @ dict_get (r_metadata doc) ''correspondent'' [] @ [CHR 0x0A] else []) @
     (if dict_get (r_metadata doc) ''document_type'' [] \<noteq> []
      then ''Typ: '' @ dict_get (r_metadata doc) ''document_type'' [] @ [CHR 0x0A] else []) @
     ''Inhalt: '' @ r_text doc @ [CHR 0x0A]"

definition context_parts :: "search_result list \<Rightarrow> string list" where
  "context_parts relevant_docs =
     map (\<lambda>(i, doc). doc_info i doc) (zip [1 ..< Suc (length relevant_docs)] relevant_docs)"

definition create_rag_prompt :: "string \<Rightarrow> string \<Rightarrow> string" where
  "create_rag_prompt question context =
     ''Du bist ein hilfreicher Assistent, der Fragen '' @ [CHR 0xFC] @
       ''ber Dokumente beantwortet.'' @ [CHR 0x0A, CHR 0x0A] @
       ''Kontext aus relevanten Dokumenten:'' @ [CHR 0x0A] @ context @ [CHR 0x0A, CHR 0x0A] @
       ''Frage: '' @ question @ [CHR 0x0A, CHR 0x0A] @ ''Anleitung:'' @ [CHR 0x0A] @
       ''- Beantworte die Frage basierend NUR auf den bereitgestellten Dokumenten'' @ [CHR 0x0A] @
       ''- WICHTIG: Verstehe Synonyme! Beispiele:'' @ [CHR 0x0A] @ ''  * '' @ [CHR 0x22] @
       ''Steuer ID'' @ [CHR 0x22] @ '' = '' @ [CHR 0x22] @ ''Steuer-Identifikationsnummer'' @
       [CHR 0x22] @ '' = '' @ [CHR 0x22] @ ''Steuernummer'' @ [CHR 0x22] @ '' = '' @ [CHR 0x22] @
       ''Tax ID'' @ [CHR 0x22, CHR 0x0A] @ ''  * '' @ [CHR 0x22] @ ''Rechnung'' @ [CHR 0x22] @
       '' = '' @ [CHR 0x22] @ ''Invoice'' @ [CHR 0x22] @ '' = '' @ [CHR 0x22] @ ''Faktura'' @
       [CHR 0x22, CHR 0x0A] @ ''  * '' @ [CHR 0x22] @ ''Adresse'' @ [CHR 0x22] @ '' = '' @
       [CHR 0x22] @ ''Anschrift'' @ [CHR 0x22] @ '' = '' @ [CHR 0x22] @ ''Wohnort'' @
       [CHR 0x22, CHR 0x0A] @
       ''- Wenn die Dokumente die Information unter einem anderen Namen enthalten, nu'' @
       ''tze sie trotzdem!'' @ [CHR 0x0A] @
       ''- Wenn die Dokumente keine Antwort enthalten, sage das ehrlich'' @ [CHR 0x0A] @
       ''- Sei pr'' @ [CHR 0xE4] @ ''zise und konkret - zitiere die genaue Fundstelle'' @
       [CHR 0x0A] @ ''- Gib Dokumentnummer an wenn du etwas zitierst (z.B. '' @ [CHR 0x22] @
       ''laut Dokument 2'' @ [CHR 0x22] @ '')'' @ [CHR 0x0A] @
       ''- Antworte auf Deutsch in vollst'' @ [CHR 0xE4] @ ''ndigen S'' @ [CHR 0xE4] @ ''tzen'' @
       [CHR 0x0A, CHR 0x0A] @ ''Antwort:''"

definition retrieve :: "qa_services \<Rightarrow> string \<Rightarrow> int \<Rightarrow> search_result list" where
  "retrieve svc question n_context_docs =
     (if use_multi_query_env svc
      then slice (search_documents_multi svc question (n_context_docs * 2) True None)
             0 n_context_docs
      else search_documents svc question n_context_docs None)"

text \<open>
  The body of the \<^verbatim>\<open>try\<close> block of \<^verbatim>\<open>answer_question\<close>.  An exception of the generation or
  of the confidence estimation leaves the block (\<open>Inl\<close>).
\<close>

definition answer_question_try ::
  "qa_services \<Rightarrow> string \<Rightarrow> int \<Rightarrow> bool \<Rightarrow> py_error + answered" where
  "answer_question_try svc question n_context_docs include_sources =
     (let relevant_docs = retrieve svc question n_context_docs
      in if relevant_docs = [] then
           Inr \<lparr>a_answer =
                 ''Ich konnte keine relevanten Dokumente finden, um diese Frage zu beantworten.'',
                a_sources = [], a_confidence = Low\<rparr>
         else
           (let sources = (if include_sources then map source_of relevant_docs else []);
                context = py_join [CHR 0x0A, CHR 0x0A] (context_parts relevant_docs);
                prompt = create_rag_prompt question context
            in case llm_generate svc prompt (py_float 0.7) of
                 Inl e \<Rightarrow> Inl e
               | Inr answer \<Rightarrow>
                   if answer = [] then
                     Inr \<lparr>a_answer = ''Entschuldigung, ich konnte keine Antwort generieren.'',
                          a_sources = (if include_sources then sources else []),
                          a_confidence = Low\<rparr>
                   else
                     (case estimate_confidence relevant_docs answer of
                        Inl e \<Rightarrow> Inl e
                      | Inr c \<Rightarrow>
                          Inr \<lparr>a_answer = strip answer,
                               a_sources = (if include_sources then sources else []),
                               a_confidence = c\<rparr>)))"

text \<open>\<^verbatim>\<open>str(e)\<close>.\<close>

definition error_message :: "py_error \<Rightarrow> string" where
  "error_message e = (case e of TypeError msg \<Rightarrow> msg | AttributeError msg \<Rightarrow> msg)"

text \<open>
  \<^verbatim>\<open>answer_question\<close>: the \<^verbatim>\<open>try\<close> block and its handler \<^verbatim>\<open>except Exception\<close>.  The result is
  \<open>Inl e\<close> if the exception \<open>e\<close> reaches the caller and \<open>Inr\<close> the returned dictionary
  otherwise.
\<close>

definition answer_question ::
  "qa_services \<Rightarrow> string \<Rightarrow> int \<Rightarrow> bool \<Rightarrow> py_error + answered" where
  "answer_question svc question n_context_docs include_sources =
     (case answer_question_try svc question n_context_docs include_sources of
        Inr result \<Rightarrow> Inr result
      | Inl e \<Rightarrow>
          Inr \<lparr>a_answer = ''Es ist ein Fehler aufgetreten: '' @ error_message e,
               a_sources = [], a_confidence = Low\<rparr>)"

subsection \<open>The ranking in the words of the specification\<close>


subsection \<open>Sample inputs\<close>

definition sample_text :: string where
  "sample_text = ''Hello world. This is a test. More text here''"

definition looping_text :: string where
  "looping_text = ''aaaaaaaa.aaaaaaaaaaaaaaaaa''"

definition doc7 :: document where
  "doc7 = \<lparr>d_id = 7, d_title = Some ''Invoice'', d_content = Some ''Invoice 2024. Total 10 EUR.'',
     d_correspondent_name = Some ''ACME'', d_document_type_name = None,
     d_created = Some ''2024-03-01'', d_tag_names = Some [''tax'', ''paid''],
     d_archive_serial_number = None\<rparr>"

definition sample_services :: services where
  "sample_services =
     \<lparr>paperless_get_document = (\<lambda>w i. if i = 7 then Some doc7 else None),
      paperless_get_all_documents = (\<lambda>w. [doc7]),
      generate_embedding = (\<lambda>w t. [1]),
      collection_add_raises = (\<lambda>w c. False)\<rparr>"

definition empty_world :: world where
  "empty_world = \<lparr>collection = Map.empty, fetched = [], embedded = [], add_calls = []\<rparr>"

definition indexed_world :: world where
  "indexed_world =
     \<lparr>collection = [''doc_7_chunk_0'' \<mapsto>
        \<lparr>e_text = ''Invoice 2024. Total 10 EUR.'', e_embedding = [1],
         e_metadata = [(''title'', ''Invoice''), (''correspondent'', ''ACME''),
           (''document_type'', []), (''created'', ''2024-03-01''), (''tags'', ''tax,paid''),
           (''archive_serial_number'', []), (''chunk_number'', ''0''), (''total_chunks'', ''1''),
           (''doc_id_original'', ''7'')]\<rparr>],
      fetched = [7], embedded = [''Invoice 2024. Total 10 EUR.''],
      add_calls = [''doc_7_chunk_0'']\<rparr>"

definition result_a :: search_result where
  "result_a = \<lparr>r_doc_id = 1, r_chunk_id = ''doc_1_chunk_0'', r_chunk_number = ''0'',
     r_total_chunks = ''1'', r_text = ''Rechnung A'',
     r_metadata = [(''title'', ''A''), (''created'', ''2023-05-01''), (''tags'', ''steuer'')],
     r_distance = Dist (py_float 0.1)\<rparr>"

definition result_b :: search_result where
  "result_b = \<lparr>r_doc_id = 2, r_chunk_id = ''doc_2_chunk_0'', r_chunk_number = ''0'',
     r_total_chunks = ''1'', r_text = ''Rechnung B'',
     r_metadata = [(''title'', ''B''), (''correspondent'', ''ACME'')],
     r_distance = Dist (py_float 0.2)\<rparr>"

definition result_a_later :: search_result where
  "result_a_later = result_a\<lparr>r_chunk_id := ''doc_1_chunk_3'', r_chunk_number := ''3'',
     r_distance := Dist (py_float 0.05)\<rparr>"

text \<open>Three query variants; each finds one result: a, b, and a again at a lower distance.\<close>

definition sample_qa :: qa_services where
  "sample_qa =
     \<lparr>extract_filters = (\<lambda>q. []),
      expand_query = (\<lambda>q. q),
      embed_query = (\<lambda>q. if q = ''v1'' then [1] else if q = ''v2'' then [2] else [0]),
      vs_search = (\<lambda>e n f. if e = [0] then [result_a] else if e = [1] then [result_b]
                           else [result_a_later]),
      llm_generate = (\<lambda>p t. Inr (''1. v1'' @ [CHR 0x0A] @ ''2. v2'')),
      use_multi_query_env = True\<rparr>"

definition result_none :: search_result where
  "result_none = \<lparr>r_doc_id = 3, r_chunk_id = ''doc_3_chunk_0'', r_chunk_number = ''0'',
     r_total_chunks = ''1'', r_text = ''Vertrag C'',
     r_metadata = [(''title'', ''C'')], r_distance = PyNone\<rparr>"

definition result_none_b :: search_result where
  "result_none_b = result_none\<lparr>r_doc_id := 6, r_chunk_id := ''doc_6_chunk_0''\<rparr>"

definition allnone_qa :: qa_services where
  "allnone_qa = sample_qa\<lparr>vs_search := (\<lambda>e n f. [result_none, result_none_b]),
     llm_generate := (\<lambda>p t. Inr ''Antwort'')\<rparr>"

definition result_c3 :: search_result where
  "result_c3 = result_b\<lparr>r_doc_id := 4, r_distance := Dist (py_float 0.3)\<rparr>"

definition long_answer :: string where
  "long_answer = replicate 150 (CHR ''a'')"

definition filter_qa :: qa_services where
  "filter_qa = sample_qa\<lparr>
     extract_filters := (\<lambda>q. [(''created_year'', Str ''2024''), (''tags'', Strs [''privat''])]),
     vs_search := (\<lambda>e n f. if f = None then [result_a] else [])\<rparr>"

definition result_zero :: search_result where
  "result_zero = \<lparr>r_doc_id = 5, r_chunk_id = ''doc_5_chunk_0'', r_chunk_number = ''0'',
     r_total_chunks = ''1'', r_text = ''Vertrag'',
     r_metadata = [(''title'', ''Z''), (''document_type'', ''Vertrag'')],
     r_distance = Dist 0\<rparr>"

definition zero_qa :: qa_services where
  "zero_qa = sample_qa\<lparr>vs_search := (\<lambda>e n f. [result_zero]),
     llm_generate := (\<lambda>p t. Inr ''Antwort''), use_multi_query_env := False\<rparr>"

definition empty_qa :: qa_services where
  "empty_qa = sample_qa\<lparr>embed_query := (\<lambda>q. [])\<rparr>"

definition silent_qa :: qa_services where
  "silent_qa = sample_qa\<lparr>vs_search := (\<lambda>e n f. [result_a]), llm_generate := (\<lambda>p t. Inr []),
     use_multi_query_env := False\<rparr>"

text \<open>A store without distances that holds two chunks of document 3.\<close>

definition result_none_dup :: search_result where
  "result_none_dup = result_none\<lparr>r_chunk_id := ''doc_3_chunk_1'', r_chunk_number := ''1''\<rparr>"

definition nodist_qa :: qa_services where
  "nodist_qa = sample_qa\<lparr>vs_search := (\<lambda>e n f. [result_none, result_none_b, result_none_dup])\<rparr>"







text \<open>Three results at distance .7.\<close>

definition result_s1 :: search_result where
  "result_s1 = result_b\<lparr>r_doc_id := 21, r_distance := Dist (py_float 0.7)\<rparr>"

definition result_s2 :: search_result where
  "result_s2 = result_s1\<lparr>r_doc_id := 22\<rparr>"

definition result_s3 :: search_result where
  "result_s3 = result_s1\<lparr>r_doc_id := 23\<rparr>"

text \<open>A language model whose reply holds a null \<^verbatim>\<open>response\<close>.\<close>

definition strip_error :: py_error where
  "strip_error =
     AttributeError ([CHR 0x27] @ ''NoneType'' @ [CHR 0x27] @ '' object has no attribute '' @
       [CHR 0x27] @ ''strip'' @ [CHR 0x27])"

definition raising_qa :: qa_services where
  "raising_qa = sample_qa\<lparr>vs_search := (\<lambda>e n f. [result_a]),
     llm_generate := (\<lambda>p t. Inl strip_error)\<rparr>"

text \<open>A collection that holds document 7 in chunked form and under the key \<^verbatim>\<open>doc_7\<close>.\<close>

definition legacy_world :: world where
  "legacy_world =
     indexed_world\<lparr>collection := (collection indexed_world)(''doc_7'' \<mapsto>
       \<lparr>e_text = ''Invoice 2024. Total 10 EUR.'', e_embedding = [1],
        e_metadata = [(''title'', ''Invoice'')]\<rparr>)\<rparr>"

section \<open>Properties\<close>

subsection \<open>Stripping\<close>

lemma strip_of_trimmed: "trimmed s \<Longrightarrow> strip s = s"
proof (cases "s = []")
  case True
  then show ?thesis by (simp add: strip_def)
next
  case False
  assume "trimmed s"
  with False have h: "\<not> is_space (hd s)" and l: "\<not> is_space (last s)"
    by (simp_all add: trimmed_def)
  from h have "dropWhile is_space s = s"
    by (simp add: dropWhile_eq_self_iff)
  moreover from l False have "dropWhile is_space (rev s) = rev s"
    by (simp add: dropWhile_eq_self_iff hd_rev)
  ultimately show ?thesis by (simp add: strip_def)
qed

lemma trimmed_strip: "trimmed (strip s)"
proof -
  define d where "d = dropWhile is_space s"
  define r where "r = dropWhile is_space (rev d)"
  have s: "strip s = rev r" by (simp add: strip_def d_def r_def)
  show ?thesis
  proof (cases "r = []")
    case True
    with s show ?thesis by (simp add: trimmed_def)
  next
    case False
    then have "\<not> is_space (hd r)"
      unfolding r_def by (rule hd_dropWhile)
    then have l: "\<not> is_space (last (rev r))"
      using False by (simp add: last_rev)
    from False have dne: "d \<noteq> []" by (auto simp: r_def)
    then have hd: "\<not> is_space (hd d)"
      unfolding d_def by (rule hd_dropWhile)
    have "rev d = takeWhile is_space (rev d) @ r"
      by (simp add: r_def)
    then have "last (rev d) = last r"
      using False by (metis last_appendR)
    with dne have "hd d = last r" by (simp add: last_rev)
    with hd False have "\<not> is_space (hd (rev r))" by (simp add: hd_rev)
    with l s show ?thesis by (simp add: trimmed_def)
  qed
qed

lemma strip_empty_iff: "strip s = [] \<longleftrightarrow> (\<forall>ch \<in> set s. is_space ch)"
proof
  assume "strip s = []"
  then have "dropWhile is_space (rev (dropWhile is_space s)) = []"
    by (simp add: strip_def)
  then have all: "\<forall>x \<in> set (dropWhile is_space s). is_space x"
    by simp
  have "dropWhile is_space s = []"
  proof (rule ccontr)
    assume ne: "dropWhile is_space s \<noteq> []"
    then have "\<not> is_space (hd (dropWhile is_space s))"
      by (rule hd_dropWhile)
    moreover from ne have "hd (dropWhile is_space s) \<in> set (dropWhile is_space s)"
      by simp
    ultimately show False using all by blast
  qed
  then show "\<forall>ch \<in> set s. is_space ch"
    by simp
next
  assume "\<forall>ch \<in> set s. is_space ch"
  then show "strip s = []"
    by (auto simp: strip_def dest: set_dropWhileD)
qed

subsection \<open>The chunker\<close>

text \<open>
  Under \<open>overlap < chunk_size\<close> and \<open>2 * overlap \<le> chunk_size + 2\<close> every pass moves
  \<^verbatim>\<open>start\<close> forward: a split point is accepted only beyond half of \<open>chunk_size\<close>, hence it is at
  least \<open>overlap\<close>.
\<close>

lemma window_advances:
  assumes "overlap < chunk_size" "2 * overlap \<le> chunk_size + 2"
    and "window text chunk_size start = (chunk, e)"
  shows "start + overlap < e"
  using assms by (auto simp: window_def Let_def split: if_splits)

lemma chunk_loop_terminates:
  assumes "overlap < chunk_size" "2 * overlap \<le> chunk_size + 2"
  shows "\<exists>r. chunk_loop text chunk_size overlap start chunks = Some r"
proof (induction "nat (int (length text) - start)" arbitrary: start chunks rule: less_induct)
  case less
  show ?case
  proof (cases "start < int (length text)")
    case False
    then show ?thesis by (subst chunk_loop.simps) simp
  next
    case True
    obtain chunk e where w: "window text chunk_size start = (chunk, e)"
      by (cases "window text chunk_size start")
    from window_advances [OF assms w] have "start < e - overlap" by simp
    with True have "nat (int (length text) - (e - overlap)) < nat (int (length text) - start)"
      by simp
    from less [OF this] obtain r where
      "chunk_loop text chunk_size overlap (e - overlap) (chunks @ [strip chunk]) = Some r"
      by blast
    with True w show ?thesis by (subst chunk_loop.simps) simp
  qed
qed

lemma chunk_loop_trimmed:
  assumes major: "chunk_loop text chunk_size overlap start chunks = Some r"
  shows "(\<forall>c \<in> set chunks. trimmed c) \<longrightarrow> (\<forall>c \<in> set r. trimmed c)"
proof (rule chunk_loop.raw_induct
    [where P = "\<lambda>t cs ov st cks r. (\<forall>c \<in> set cks. trimmed c) \<longrightarrow> (\<forall>c \<in> set r. trimmed c)",
      OF _ major], goal_cases)
  case (1 f t cs ov st cks r)
  show ?case
  proof (cases "st < int (length t)")
    case False
    with 1(2) show ?thesis by simp
  next
    case True
    obtain chunk e where w: "window t cs st = (chunk, e)"
      by (cases "window t cs st")
    from True w 1(2) have "f t cs ov (e - ov) (cks @ [strip chunk]) = Some r"
      by simp
    from 1(1) [OF this] show ?thesis by (simp add: trimmed_strip)
  qed
qed

lemma chunk_loop_length:
  assumes major: "chunk_loop text chunk_size overlap start chunks = Some r"
  shows "length chunks \<le> length r"
proof (rule chunk_loop.raw_induct
    [where P = "\<lambda>t cs ov st cks r. length cks \<le> length r", OF _ major], goal_cases)
  case (1 f t cs ov st cks r)
  show ?case
  proof (cases "st < int (length t)")
    case False
    with 1(2) show ?thesis by simp
  next
    case True
    obtain chunk e where w: "window t cs st = (chunk, e)"
      by (cases "window t cs st")
    from True w 1(2) have "f t cs ov (e - ov) (cks @ [strip chunk]) = Some r"
      by simp
    from 1(1) [OF this] show ?thesis by simp
  qed
qed

lemma chunk_loop_nonempty:
  assumes "text \<noteq> []" "chunk_loop text chunk_size overlap 0 [] = Some r"
  shows "r \<noteq> []"
proof -
  obtain chunk e where w: "window text chunk_size 0 = (chunk, e)"
    by (cases "window text chunk_size 0")
  from assms have "chunk_loop text chunk_size overlap (e - overlap) [strip chunk] = Some r"
    by (subst (asm) chunk_loop.simps) (simp add: w)
  from chunk_loop_length [OF this] show ?thesis by auto
qed

text \<open>Every chunk is the stripped window of some pass of the loop.\<close>

lemma chunk_loop_windows:
  assumes major: "chunk_loop text chunk_size overlap start chunks = Some r"
  shows "(\<forall>c \<in> set chunks. \<exists>s. s < int (length text) \<and> c = strip (fst (window text chunk_size s)))
    \<longrightarrow> (\<forall>c \<in> set r. \<exists>s. s < int (length text) \<and> c = strip (fst (window text chunk_size s)))"
proof (rule chunk_loop.raw_induct
    [where P = "\<lambda>t cs ov st cks r.
       (\<forall>c \<in> set cks. \<exists>s. s < int (length t) \<and> c = strip (fst (window t cs s))) \<longrightarrow>
       (\<forall>c \<in> set r. \<exists>s. s < int (length t) \<and> c = strip (fst (window t cs s)))",
      OF _ major], goal_cases)
  case (1 f t cs ov st cks r)
  show ?case
  proof (cases "st < int (length t)")
    case False
    with 1(2) show ?thesis by simp
  next
    case True
    obtain chunk e where w: "window t cs st = (chunk, e)"
      by (cases "window t cs st")
    from True w 1(2) have "f t cs ov (e - ov) (cks @ [strip chunk]) = Some r"
      by simp
    from 1(1) [OF this] have ih:
      "(\<forall>c \<in> set (cks @ [strip chunk]).
          \<exists>s. s < int (length t) \<and> c = strip (fst (window t cs s))) \<longrightarrow>
       (\<forall>c \<in> set r. \<exists>s. s < int (length t) \<and> c = strip (fst (window t cs s)))" .
    show ?thesis
    proof
      assume a: "\<forall>c \<in> set cks. \<exists>s. s < int (length t) \<and> c = strip (fst (window t cs s))"
      have "\<exists>s. s < int (length t) \<and> strip chunk = strip (fst (window t cs s))"
        using True w by (intro exI [of _ st]) simp
      with a have "\<forall>c \<in> set (cks @ [strip chunk]).
          \<exists>s. s < int (length t) \<and> c = strip (fst (window t cs s))"
        by simp
      with ih show "\<forall>c \<in> set r. \<exists>s. s < int (length t) \<and> c = strip (fst (window t cs s))"
        by blast
    qed
  qed
qed

lemma chunk_loop_prefix:
  assumes major: "chunk_loop text chunk_size overlap start chunks = Some r"
  shows "prefix chunks r"
proof (rule chunk_loop.raw_induct
    [where P = "\<lambda>t cs ov st cks r. prefix cks r", OF _ major], goal_cases)
  case (1 f t cs ov st cks r)
  show ?case
  proof (cases "st < int (length t)")
    case False
    with 1(2) show ?thesis by simp
  next
    case True
    obtain chunk e where w: "window t cs st = (chunk, e)"
      by (cases "window t cs st")
    from True w 1(2) have "f t cs ov (e - ov) (cks @ [strip chunk]) = Some r"
      by simp
    from 1(1) [OF this] show ?thesis by (rule append_prefixD)
  qed
qed

lemma chunk_loop_first:
  assumes "text \<noteq> []" "chunk_loop text chunk_size overlap 0 [] = Some r"
  shows "r \<noteq> [] \<and> hd r = strip (fst (window text chunk_size 0))"
proof -
  obtain chunk e where w: "window text chunk_size 0 = (chunk, e)"
    by (cases "window text chunk_size 0")
  from assms have "chunk_loop text chunk_size overlap (e - overlap) [strip chunk] = Some r"
    by (subst (asm) chunk_loop.simps) (simp add: w)
  from chunk_loop_prefix [OF this] obtain rest where "r = strip chunk # rest"
    by (auto simp: prefix_def)
  with w show ?thesis by simp
qed

lemma chunk_text_sample:
  "chunk_text sample_text 20 5 =
     Some [''Hello world.'', ''orld. This is a test'', ''test. More text her'', ''t here'']"
  by (simp add: sample_text_def) code_simp

lemma chunk_text_short: "chunk_text ''ab'' 20 5 = Some [''ab'']"
  by (simp add: chunk_text_def)

text \<open>
  Claim C3, as the code has it.  A text no longer than \<open>chunk_size\<close> comes back as the one
  chunk it is, without stripping.  For a longer text at least one chunk is returned, the
  first one is the stripped first window, and every chunk is the stripped window of some
  pass of the loop: it carries no leading and no trailing whitespace, and it is empty exactly
  when its window holds nothing but whitespace.  The chunker does return under the advance
  condition of \<open>window_advances\<close>.
\<close>

theorem chunk_text_trimmed_chunks:
  "(text = [] \<or> int (length text) \<le> chunk_size \<longrightarrow>
      chunk_text text chunk_size overlap = Some [text]) \<and>
   (text \<noteq> [] \<and> chunk_size < int (length text) \<and>
      chunk_text text chunk_size overlap = Some chunks \<longrightarrow>
      chunks \<noteq> [] \<and> hd chunks = strip (fst (window text chunk_size 0)) \<and>
      (\<forall>c \<in> set chunks. trimmed c \<and>
         (\<exists>start. start < int (length text) \<and>
            c = strip (fst (window text chunk_size start)) \<and>
            (c = [] \<longleftrightarrow> (\<forall>ch \<in> set (fst (window text chunk_size start)). is_space ch))))) \<and>
   (overlap < chunk_size \<and> 2 * overlap \<le> chunk_size + 2 \<longrightarrow>
      (\<exists>r. chunk_text text chunk_size overlap = Some r))"
proof (intro conjI impI)
  assume "text = [] \<or> int (length text) \<le> chunk_size"
  then show "chunk_text text chunk_size overlap = Some [text]"
    by (auto simp: chunk_text_def)
next
  assume a: "text \<noteq> [] \<and> chunk_size < int (length text) \<and>
    chunk_text text chunk_size overlap = Some chunks"
  then have l: "chunk_loop text chunk_size overlap 0 [] = Some chunks"
    by (auto simp: chunk_text_def split: if_splits)
  from a chunk_loop_first [OF _ l] show "chunks \<noteq> []"
    and "hd chunks = strip (fst (window text chunk_size 0))"
    by blast+
  show "\<forall>c \<in> set chunks. trimmed c \<and>
         (\<exists>start. start < int (length text) \<and>
            c = strip (fst (window text chunk_size start)) \<and>
            (c = [] \<longleftrightarrow> (\<forall>ch \<in> set (fst (window text chunk_size start)). is_space ch)))"
  proof
    fix c assume "c \<in> set chunks"
    with chunk_loop_windows [OF l] obtain s where
      s: "s < int (length text)" "c = strip (fst (window text chunk_size s))"
      by auto
    from s(2) have "trimmed c"
      by (simp add: trimmed_strip)
    moreover from s(2)
    have "c = [] \<longleftrightarrow> (\<forall>ch \<in> set (fst (window text chunk_size s)). is_space ch)"
      by (simp add: strip_empty_iff)
    ultimately show "trimmed c \<and>
         (\<exists>start. start < int (length text) \<and>
            c = strip (fst (window text chunk_size start)) \<and>
            (c = [] \<longleftrightarrow> (\<forall>ch \<in> set (fst (window text chunk_size start)). is_space ch)))"
      using s by blast
  qed
next
  assume "overlap < chunk_size \<and> 2 * overlap \<le> chunk_size + 2"
  then show "\<exists>r. chunk_text text chunk_size overlap = Some r"
    by (simp add: chunk_text_def chunk_loop_terminates)
qed

lemma window_sample: "strip (fst (window sample_text 20 0)) = ''Hello world.''"
  by (simp add: sample_text_def window_def slice_def clamp_index_def rfind_def strip_def
      is_space_def)

theorem chunk_text_trimmed_chunks_witness:
  "chunk_text ''ab'' 20 5 = Some [''ab''] \<and>
   chunk_text sample_text 20 5 =
     Some [''Hello world.'', ''orld. This is a test'', ''test. More text her'', ''t here''] \<and>
   list_all trimmed
     [''Hello world.'', ''orld. This is a test'', ''test. More text her'', ''t here''] \<and>
   strip (fst (window sample_text 20 0)) = ''Hello world.'' \<and>
   (\<exists>r. chunk_text sample_text 20 5 = Some r)"
  using chunk_text_trimmed_chunks [of "''ab''" 20 5]
    chunk_text_trimmed_chunks [of sample_text 20 5
      "[''Hello world.'', ''orld. This is a test'', ''test. More text her'', ''t here'']"]
    chunk_text_sample window_sample
  by (simp add: list_all_iff)

text \<open>
  The claim as stated fails twice: a short text with a leading blank is returned as it is,
  and the window of two blanks at index 2 yields an empty chunk.
\<close>

theorem chunk_text_untrimmed_counterexample:
  "chunk_text '' a'' 1000 200 = Some ['' a''] \<and> \<not> trimmed '' a'' \<and> strip '' a'' \<noteq> '' a'' \<and>
   chunk_text ''ab  cd'' 2 0 = Some [''ab'', [], ''cd'']"
proof -
  have "chunk_text ''ab  cd'' 2 0 = Some [''ab'', [], ''cd'']"
    by code_simp
  then show ?thesis
    by (simp add: chunk_text_def trimmed_def strip_def is_space_def)
qed

text \<open>
  Claim C4, as the code has it: the chunker returns for every text when
  \<open>overlap < chunk_size\<close> and \<open>2 * overlap \<le> chunk_size + 2\<close>, which covers the indexer's
  policy \<open>(1500, 200)\<close> and the defaults \<open>(1000, 200)\<close>.
\<close>

theorem chunk_text_terminates:
  "overlap < chunk_size \<Longrightarrow> 2 * overlap \<le> chunk_size + 2 \<Longrightarrow>
   \<exists>chunks. chunk_text text chunk_size overlap = Some chunks"
  by (simp add: chunk_text_def chunk_loop_terminates)

theorem chunk_text_terminates_witness:
  "(200 :: int) < 1500 \<and> 2 * (200 :: int) \<le> 1500 + 2 \<and>
   (\<exists>chunks. chunk_text sample_text 1500 200 = Some chunks)"
  using chunk_text_terminates [of 200 1500 sample_text] by simp

text \<open>
  With \<open>overlap = 9 < chunk_size = 10\<close> the first window of \<open>looping_text\<close> is cut after the
  full stop at index 8, so \<^verbatim>\<open>end = 9\<close> and \<^verbatim>\<open>start\<close> is 0 again: the loop never returns.
\<close>

lemma window_looping: "window looping_text 10 0 = (''aaaaaaaa.'', 9)"
  by (simp add: looping_text_def window_def slice_def clamp_index_def rfind_def)

lemma chunk_loop_looping:
  assumes major: "chunk_loop text chunk_size overlap start chunks = Some r"
  shows "\<not> (text = looping_text \<and> chunk_size = 10 \<and> overlap = 9 \<and> start = 0)"
proof (rule chunk_loop.raw_induct
    [where P = "\<lambda>t cs ov st cks r. \<not> (t = looping_text \<and> cs = 10 \<and> ov = 9 \<and> st = 0)",
      OF _ major], goal_cases)
  case (1 f t cs ov st cks r)
  show ?case
  proof
    assume "t = looping_text \<and> cs = 10 \<and> ov = 9 \<and> st = 0"
    then have eq: "t = looping_text" "cs = 10" "ov = 9" "st = 0" by simp_all
    have pos: "(0 :: int) < int (length looping_text)"
      by (simp add: looping_text_def)
    from 1(2) pos have "f looping_text 10 9 0 (cks @ [strip ''aaaaaaaa.'']) = Some r"
      by (simp add: eq window_looping)
    from 1(1) [OF this] show False by simp
  qed
qed

theorem chunk_text_overlap_counterexample:
  "(9 :: int) < 10 \<and> chunk_text looping_text 10 9 = None"
proof (cases "chunk_text looping_text 10 9")
  case None
  then show ?thesis by simp
next
  case (Some r)
  then have "chunk_loop looping_text 10 9 0 [] = Some r"
    by (simp add: chunk_text_def looping_text_def)
  from chunk_loop_looping [OF this] show ?thesis by simp
qed

subsection \<open>The indexer\<close>

lemma digits_of_chars: "set (digits_of n) \<subseteq> set ''0123456789''"
proof (induction n rule: digits_of.induct)
  case (1 n)
  have m: "''0123456789'' ! (n mod 10) \<in> set ''0123456789''"
    by (rule nth_mem) simp
  show ?case
  proof (cases "n < 10")
    case True
    then have "''0123456789'' ! n \<in> set ''0123456789''"
      by (intro nth_mem) simp
    with True show ?thesis by (subst digits_of.simps) simp
  next
    case False
    with 1 m show ?thesis by (subst digits_of.simps) simp
  qed
qed

lemma underscore_not_in_str_int: "CHR ''_'' \<notin> set (str_int i)"
  using digits_of_chars [of "nat i"] digits_of_chars [of "nat (- i)"]
  by (auto simp: str_int_def)

lemma str_int_0: "str_int 0 = ''0''"
  by (simp add: str_int_def digits_of.simps)

lemma unchunked_key_differs: "chroma_id (IntId i) \<noteq> chroma_id (StrId (chunk_doc_id j k))"
proof
  assume "chroma_id (IntId i) = chroma_id (StrId (chunk_doc_id j k))"
  then have "str_int i = str_int j @ ''_chunk_'' @ str_int (int k)"
    by (simp add: chunk_doc_id_def)
  then have "CHR ''_'' \<in> set (str_int i)" by simp
  with underscore_not_in_str_int show False by blast
qed


lemma chunk_text_policy:
  "\<exists>chunks. chunk_text content 1500 200 = Some chunks \<and> (content \<noteq> [] \<longrightarrow> chunks \<noteq> [])"
proof (cases "content = [] \<or> int (length content) \<le> 1500")
  case True
  then show ?thesis by (auto simp: chunk_text_def)
next
  case False
  obtain r where r: "chunk_loop content 1500 200 0 [] = Some r"
    using chunk_loop_terminates [of 200 1500 content 0 "[]"] by auto
  from False chunk_loop_nonempty [OF _ r] have "r \<noteq> []" by blast
  with False r show ?thesis by (simp add: chunk_text_def)
qed

lemma add_document_dom:
  assumes "add_document svc doc_id t e m w = (ok, w')"
  shows "dom (collection w) \<subseteq> dom (collection w')"
    and "dom (collection w') \<subseteq> insert (chroma_id doc_id) (dom (collection w))"
    and "ok \<Longrightarrow> chroma_id doc_id \<in> dom (collection w')"
  using assms by (auto simp: add_document_def Let_def split: if_splits)

lemma index_chunks_dom:
  "index_chunks svc doc_id md tot idx chunks ok w = (r, w') \<Longrightarrow>
   dom (collection w) \<subseteq> dom (collection w') \<and>
   dom (collection w') \<subseteq> dom (collection w) \<union> range (\<lambda>k. chroma_id (StrId (chunk_doc_id doc_id k))) \<and>
   (r \<longrightarrow> ok \<and> (\<forall>k < length chunks.
      chroma_id (StrId (chunk_doc_id doc_id (idx + k))) \<in> dom (collection w')))"
proof (induction chunks arbitrary: idx ok w)
  case Nil
  then show ?case by auto
next
  case (Cons c cs)
  define w1 where "w1 = w\<lparr>embedded := embedded w @ [c]\<rparr>"
  have cw1: "collection w1 = collection w" by (simp add: w1_def)
  show ?case
  proof (cases "generate_embedding svc w c = []")
    case True
    with Cons.prems have "index_chunks svc doc_id md tot (idx + 1) cs False w1 = (r, w')"
      by (simp add: w1_def Let_def)
    from Cons.IH [OF this] cw1 show ?thesis by auto
  next
    case False
    define md' where "md' = AList.update ''doc_id_original'' (str_int doc_id)
              (AList.update ''total_chunks'' (str_int (int tot))
                (AList.update ''chunk_number'' (str_int (int idx)) md))"
    obtain s w2 where a: "add_document svc (StrId (chunk_doc_id doc_id idx)) (slice c 0 500)
        (generate_embedding svc w c) md' w1 = (s, w2)"
      by (cases "add_document svc (StrId (chunk_doc_id doc_id idx)) (slice c 0 500)
        (generate_embedding svc w c) md' w1")
    with False Cons.prems have
      rec: "index_chunks svc doc_id md tot (idx + 1) cs (ok \<and> s) w2 = (r, w')"
      by (simp add: w1_def md'_def Let_def)
    note ih = Cons.IH [OF rec]
    note ad = add_document_dom [OF a]
    from ih have ih1: "dom (collection w2) \<subseteq> dom (collection w')"
      and ih2: "dom (collection w') \<subseteq>
        dom (collection w2) \<union> range (\<lambda>k. chroma_id (StrId (chunk_doc_id doc_id k)))"
      by blast+
    from ih1 ad(1) cw1 have 1: "dom (collection w) \<subseteq> dom (collection w')" by simp
    have "chroma_id (StrId (chunk_doc_id doc_id idx)) \<in>
        range (\<lambda>k. chroma_id (StrId (chunk_doc_id doc_id k)))"
      by (rule range_eqI) (rule refl)
    with ih2 ad(2) cw1 have 2: "dom (collection w') \<subseteq>
        dom (collection w) \<union> range (\<lambda>k. chroma_id (StrId (chunk_doc_id doc_id k)))"
      by (simp del: chroma_id.simps) blast
    have 3: "ok \<and> (\<forall>k < length (c # cs).
        chroma_id (StrId (chunk_doc_id doc_id (idx + k))) \<in> dom (collection w'))" if r
    proof -
      from ih that have oks: "ok" "s"
        and rest: "\<forall>k < length cs.
          chroma_id (StrId (chunk_doc_id doc_id (idx + 1 + k))) \<in> dom (collection w')"
        by auto
      from ad(3) oks ih1 have here: "chroma_id (StrId (chunk_doc_id doc_id idx)) \<in> dom (collection w')"
        by blast
      have "chroma_id (StrId (chunk_doc_id doc_id (idx + k))) \<in> dom (collection w')"
        if "k < length (c # cs)" for k
      proof (cases k)
        case 0
        with here show ?thesis by simp
      next
        case (Suc j)
        with that rest show ?thesis by simp
      qed
      with oks show ?thesis by blast
    qed
    from 1 2 3 show ?thesis by blast
  qed
qed

lemma index_document_total: "\<exists>r. index_document svc doc_id force w = Some r"
proof -
  have [simp]: "chunk_text content 1500 200 \<noteq> None" for content
    using chunk_text_policy [of content] by auto
  show ?thesis
    by (auto simp: index_document_def Let_def split: option.splits)
qed

lemma index_document_skip:
  "document_exists w (StrId (first_chunk_id doc_id)) \<Longrightarrow>
   index_document svc doc_id False w = Some (True, w)"
  by (simp add: index_document_def)

lemma first_chunk_id_eq: "first_chunk_id doc_id = chunk_doc_id doc_id 0"
  by (simp add: first_chunk_id_def chunk_doc_id_def str_int_0)

lemma index_document_success_first_chunk:
  assumes "index_document svc doc_id force w = Some (True, w')"
  shows "document_exists w' (StrId (first_chunk_id doc_id))"
proof (cases "\<not> force \<and> document_exists w (StrId (first_chunk_id doc_id))")
  case True
  with assms show ?thesis by (simp add: index_document_def)
next
  case False
  define w1 where "w1 = w\<lparr>fetched := fetched w @ [doc_id]\<rparr>"
  from False assms obtain d where d: "paperless_get_document svc w doc_id = Some d"
    by (auto simp: index_document_def Let_def split: option.splits)
  from False assms d have ne: "get_str (d_content d) \<noteq> []"
    by (auto simp: index_document_def Let_def split: option.splits if_splits)
  from chunk_text_policy [of "get_str (d_content d)"] ne obtain chunks where
    c: "chunk_text (get_str (d_content d)) 1500 200 = Some chunks" "chunks \<noteq> []"
    by auto
  from False assms d ne c have
    "index_chunks svc doc_id (document_metadata d) (length chunks) 0 chunks True w1 = (True, w')"
    by (auto simp: index_document_def Let_def w1_def split: if_splits)
  from index_chunks_dom [OF this] c(2)
  have "chroma_id (StrId (chunk_doc_id doc_id (0 + 0))) \<in> dom (collection w')"
    by blast
  then show ?thesis
    by (auto simp: document_exists_def first_chunk_id_eq)
qed

lemma index_document_writes:
  assumes "index_document svc doc_id force w = Some (ok, w')"
  shows "dom (collection w') \<subseteq>
    dom (collection w) \<union> range (\<lambda>k. chroma_id (StrId (chunk_doc_id doc_id k)))"
proof -
  have "dom (collection w') \<subseteq>
      dom (collection (w\<lparr>fetched := fetched w @ [doc_id]\<rparr>)) \<union>
        range (\<lambda>k. chroma_id (StrId (chunk_doc_id doc_id k)))"
    if "index_chunks svc doc_id md n 0 chunks True (w\<lparr>fetched := fetched w @ [doc_id]\<rparr>) = (ok, w')"
    for md n chunks
    using index_chunks_dom [OF that] by blast
  with assms show ?thesis
    by (auto simp: index_document_def Let_def split: if_splits option.splits)
qed

lemma index_document_keeps:
  assumes "index_document svc doc_id force w = Some (ok, w')"
  shows "dom (collection w) \<subseteq> dom (collection w')"
proof -
  have "dom (collection w) \<subseteq> dom (collection w')"
    if "index_chunks svc doc_id md n 0 chunks True (w\<lparr>fetched := fetched w @ [doc_id]\<rparr>) = (ok, w')"
    for md n chunks
    using index_chunks_dom [OF that] by simp
  with assms show ?thesis
    by (auto simp: index_document_def Let_def split: if_splits option.splits)
qed

text \<open>\<^verbatim>\<open>index_document\<close> neither adds nor removes an un-chunked key.\<close>

lemma index_document_unchunked:
  assumes "index_document svc doc_id force w = Some (ok, w')"
  shows "collection w' (''doc_'' @ str_int i) = None \<longleftrightarrow> collection w (''doc_'' @ str_int i) = None"
proof
  assume "collection w' (''doc_'' @ str_int i) = None"
  with index_document_keeps [OF assms] show "collection w (''doc_'' @ str_int i) = None"
    by (auto simp: dom_def)
next
  assume a: "collection w (''doc_'' @ str_int i) = None"
  show "collection w' (''doc_'' @ str_int i) = None"
  proof (rule ccontr)
    assume "collection w' (''doc_'' @ str_int i) \<noteq> None"
    then have "chroma_id (IntId i) \<in> dom (collection w')"
      by (simp add: dom_def)
    with index_document_writes [OF assms] a
    have "chroma_id (IntId i) \<in> range (\<lambda>k. chroma_id (StrId (chunk_doc_id doc_id k)))"
      by (auto simp: dom_def)
    with unchunked_key_differs show False
      by blast
  qed
qed

lemma document_exists_unchunked:
  "document_exists w (IntId i) \<longleftrightarrow> collection w (''doc_'' @ str_int i) \<noteq> None"
  by (simp add: document_exists_def)

lemma document_exists_first_chunk:
  "document_exists w (StrId (first_chunk_id i)) \<longleftrightarrow>
     collection w (''doc_'' @ str_int i @ ''_chunk_0'') \<noteq> None"
  by (simp add: document_exists_def first_chunk_id_def)

text \<open>One pass of the batch loop, by the un-chunked key of the document.\<close>

lemma index_all_loop_skip:
  assumes "collection w (''doc_'' @ str_int (d_id doc)) \<noteq> None"
  shows "index_all_loop svc (doc # docs) st w =
    index_all_loop svc docs (st\<lparr>skipped := skipped st + 1\<rparr>) w"
  using assms by (simp add: document_exists_unchunked)

lemma index_all_loop_call:
  assumes "collection w (''doc_'' @ str_int (d_id doc)) = None"
    and "index_document svc (d_id doc) False w = Some (ok, w1)"
  shows "index_all_loop svc (doc # docs) st w =
    index_all_loop svc docs
      (if ok then st\<lparr>indexed := indexed st + 1\<rparr> else st\<lparr>failed := failed st + 1\<rparr>) w1"
  using assms by (simp add: document_exists_unchunked)

text \<open>
  The statistics of the whole loop: the documents counted as skipped are those whose
  un-chunked key is in the collection at the start; every other document is counted as
  indexed or as failed.
\<close>

lemma index_all_loop_counts:
  "index_all_loop svc docs st w = Some (st', w') \<Longrightarrow>
   skipped st' = skipped st +
     int (length (filter (\<lambda>d. collection w (''doc_'' @ str_int (d_id d)) \<noteq> None) docs)) \<and>
   indexed st' + failed st' = indexed st + failed st +
     int (length (filter (\<lambda>d. collection w (''doc_'' @ str_int (d_id d)) = None) docs))"
proof (induction docs arbitrary: st w)
  case Nil
  then show ?case by simp
next
  case (Cons d ds)
  show ?case
  proof (cases "collection w (''doc_'' @ str_int (d_id d)) = None")
    case False
    with Cons.prems index_all_loop_skip [of w d svc ds st]
    have "index_all_loop svc ds (st\<lparr>skipped := skipped st + 1\<rparr>) w = Some (st', w')"
      by (simp del: index_all_loop.simps)
    from Cons.IH [OF this] False show ?thesis by simp
  next
    case True
    obtain ok w1 where r: "index_document svc (d_id d) False w = Some (ok, w1)"
      using index_document_total [of svc "d_id d" False w] by auto
    have same: "(\<lambda>x. collection w1 (''doc_'' @ str_int (d_id x)) = None) =
        (\<lambda>x. collection w (''doc_'' @ str_int (d_id x)) = None)"
      by (intro ext) (simp only: index_document_unchunked [OF r])
    have same': "(\<lambda>x. collection w1 (''doc_'' @ str_int (d_id x)) \<noteq> None) =
        (\<lambda>x. collection w (''doc_'' @ str_int (d_id x)) \<noteq> None)"
      by (intro ext) (simp only: index_document_unchunked [OF r])
    from Cons.prems True r have rec: "index_all_loop svc ds
        (if ok then st\<lparr>indexed := indexed st + 1\<rparr> else st\<lparr>failed := failed st + 1\<rparr>) w1 =
        Some (st', w')"
      by (simp add: index_all_loop_call [OF True r] del: index_all_loop.simps)
    from Cons.IH [OF rec] True show ?thesis
      unfolding same same' by (cases ok) simp_all
  qed
qed

lemma index_all_loop_total: "\<exists>r. index_all_loop svc docs st w = Some r"
proof (induction docs arbitrary: st w)
  case Nil
  then show ?case by simp
next
  case (Cons d ds)
  obtain ok w1 where r: "index_document svc (d_id d) False w = Some (ok, w1)"
    using index_document_total [of svc "d_id d" False w] by auto
  show ?case
  proof (cases "collection w (''doc_'' @ str_int (d_id d)) = None")
    case True
    from index_all_loop_call [OF True r] Cons.IH show ?thesis
      by (simp del: index_all_loop.simps)
  next
    case False
    from index_all_loop_skip [OF False] Cons.IH show ?thesis
      by (simp del: index_all_loop.simps)
  qed
qed

text \<open>
  Documents whose first chunk is in the collection cause no work: the world stays as it is,
  and each is counted as skipped or as indexed by its un-chunked key alone.
\<close>

lemma index_all_loop_chunked:
  assumes "\<forall>d \<in> set docs. collection w (''doc_'' @ str_int (d_id d) @ ''_chunk_0'') \<noteq> None"
  shows "index_all_loop svc docs st w =
      Some (st\<lparr>indexed := indexed st +
                  int (length (filter (\<lambda>d. collection w (''doc_'' @ str_int (d_id d)) = None) docs)),
               skipped := skipped st +
                  int (length (filter (\<lambda>d. collection w (''doc_'' @ str_int (d_id d)) \<noteq> None) docs))\<rparr>,
            w)"
  using assms
proof (induction docs arbitrary: st)
  case Nil
  then show ?case by simp
next
  case (Cons d ds)
  from Cons.prems have first: "document_exists w (StrId (first_chunk_id (d_id d)))"
    by (simp add: document_exists_first_chunk)
  from Cons.prems have rest: "\<forall>d \<in> set ds. collection w (''doc_'' @ str_int (d_id d) @ ''_chunk_0'') \<noteq> None"
    by simp
  show ?case
  proof (cases "collection w (''doc_'' @ str_int (d_id d)) = None")
    case True
    from index_all_loop_call [OF True index_document_skip [OF first]] Cons.IH [OF rest] True
    show ?thesis by (simp add: algebra_simps del: index_all_loop.simps)
  next
    case False
    from index_all_loop_skip [OF False] Cons.IH [OF rest] False
    show ?thesis by (simp add: algebra_simps del: index_all_loop.simps)
  qed
qed

lemma index_document_sample:
  "index_document sample_services 7 False empty_world = Some (True, indexed_world)"
  by (simp add: index_document_def sample_services_def empty_world_def indexed_world_def
      document_exists_def first_chunk_id_def chunk_doc_id_def str_int_def digits_of.simps
      doc7_def get_str_def chunk_text_def document_metadata_def py_join_def add_document_def
      slice_def clamp_index_def Let_def)

lemma indexed_world_first_chunk: "document_exists indexed_world (StrId (first_chunk_id 7))"
  by (simp add: indexed_world_def document_exists_def first_chunk_id_def str_int_def
      digits_of.simps)

text \<open>
  Claim C7.  When the first chunk of the document is in the collection, a call without
  \<open>force_reindex\<close> returns success and leaves the world as it was: nothing is fetched,
  embedded or added.  A call that reports success leaves the first chunk in the
  collection, so the call after it is such a call.  Every call returns.
\<close>

theorem index_document_idempotent:
  "(document_exists w (StrId (first_chunk_id doc_id)) \<longrightarrow>
      index_document svc doc_id False w = Some (True, w)) \<and>
   (index_document svc doc_id False w = Some (True, w1) \<longrightarrow>
      index_document svc doc_id False w1 = Some (True, w1)) \<and>
   (\<exists>r. index_document svc doc_id force w = Some r)"
  using index_document_skip index_document_success_first_chunk index_document_total
  by blast

theorem index_document_idempotent_witness:
  "index_document sample_services 7 False empty_world = Some (True, indexed_world) \<and>
   index_document sample_services 7 False indexed_world = Some (True, indexed_world) \<and>
   fetched indexed_world = [7]"
  using index_document_idempotent [of empty_world 7 sample_services indexed_world]
    index_document_sample
  by (simp add: indexed_world_def)

text \<open>
  Claim C10, as the code has it.  The batch loop looks up the un-chunked key \<^verbatim>\<open>doc_{id}\<close>
  and nothing else: over a whole run the documents counted as skipped are exactly those
  whose un-chunked key is in the collection at the start, and \<^verbatim>\<open>index_document\<close> never adds
  such a key.  A document whose un-chunked key is in the collection is skipped, whether
  its chunks are there or not.  A document whose un-chunked key is absent is handed to
  \<^verbatim>\<open>index_document\<close>, whose result decides between indexed and failed and whose world the
  loop goes on with; when the first chunk \<^verbatim>\<open>doc_{id}_chunk_0\<close> is in the collection this call
  changes nothing and the document is counted as indexed.  The batch call always returns.
\<close>

theorem index_all_skip_check:
  "(index_all_loop svc docs st w = Some (st', w') \<longrightarrow>
      skipped st' = skipped st +
        int (length (filter (\<lambda>d. collection w (''doc_'' @ str_int (d_id d)) \<noteq> None) docs)) \<and>
      indexed st' + failed st' = indexed st + failed st +
        int (length (filter (\<lambda>d. collection w (''doc_'' @ str_int (d_id d)) = None) docs))) \<and>
   (collection w (''doc_'' @ str_int (d_id doc)) \<noteq> None \<longrightarrow>
      index_all_loop svc (doc # docs) st w =
        index_all_loop svc docs (st\<lparr>skipped := skipped st + 1\<rparr>) w) \<and>
   (collection w (''doc_'' @ str_int (d_id doc)) = None \<and>
    index_document svc (d_id doc) False w = Some (ok, w1) \<longrightarrow>
      index_all_loop svc (doc # docs) st w =
        index_all_loop svc docs
          (if ok then st\<lparr>indexed := indexed st + 1\<rparr> else st\<lparr>failed := failed st + 1\<rparr>) w1 \<and>
      (\<forall>i. collection w1 (''doc_'' @ str_int i) = None \<longleftrightarrow>
           collection w (''doc_'' @ str_int i) = None)) \<and>
   (collection w (''doc_'' @ str_int (d_id doc)) = None \<and>
    collection w (''doc_'' @ str_int (d_id doc) @ ''_chunk_0'') \<noteq> None \<longrightarrow>
      index_all_loop svc (doc # docs) st w =
        index_all_loop svc docs (st\<lparr>indexed := indexed st + 1\<rparr>) w) \<and>
   ((\<forall>d \<in> set docs. collection w (''doc_'' @ str_int (d_id d) @ ''_chunk_0'') \<noteq> None) \<and>
    paperless_get_all_documents svc w = docs \<longrightarrow>
      index_all_documents svc w =
        Some (\<lparr>indexed =
                 int (length (filter (\<lambda>d. collection w (''doc_'' @ str_int (d_id d)) = None) docs)),
               skipped =
                 int (length (filter (\<lambda>d. collection w (''doc_'' @ str_int (d_id d)) \<noteq> None) docs)),
               failed = 0\<rparr>, w)) \<and>
   (\<exists>r. index_all_documents svc w = Some r)"
proof (intro conjI impI)
  assume "index_all_loop svc docs st w = Some (st', w')"
  from index_all_loop_counts [OF this]
  show "skipped st' = skipped st +
        int (length (filter (\<lambda>d. collection w (''doc_'' @ str_int (d_id d)) \<noteq> None) docs))"
    and "indexed st' + failed st' = indexed st + failed st +
        int (length (filter (\<lambda>d. collection w (''doc_'' @ str_int (d_id d)) = None) docs))"
    by blast+
next
  assume "collection w (''doc_'' @ str_int (d_id doc)) \<noteq> None"
  then show "index_all_loop svc (doc # docs) st w =
        index_all_loop svc docs (st\<lparr>skipped := skipped st + 1\<rparr>) w"
    by (rule index_all_loop_skip)
next
  assume a: "collection w (''doc_'' @ str_int (d_id doc)) = None \<and>
    index_document svc (d_id doc) False w = Some (ok, w1)"
  then show "index_all_loop svc (doc # docs) st w =
        index_all_loop svc docs
          (if ok then st\<lparr>indexed := indexed st + 1\<rparr> else st\<lparr>failed := failed st + 1\<rparr>) w1"
    using index_all_loop_call [of w doc svc ok w1 docs st] by blast
  from a index_document_unchunked
  show "\<forall>i. collection w1 (''doc_'' @ str_int i) = None \<longleftrightarrow>
           collection w (''doc_'' @ str_int i) = None"
    by blast
next
  assume a: "collection w (''doc_'' @ str_int (d_id doc)) = None \<and>
    collection w (''doc_'' @ str_int (d_id doc) @ ''_chunk_0'') \<noteq> None"
  then have "index_document svc (d_id doc) False w = Some (True, w)"
    by (simp add: index_document_skip document_exists_first_chunk)
  with a index_all_loop_call [of w doc svc True w docs st]
  show "index_all_loop svc (doc # docs) st w =
        index_all_loop svc docs (st\<lparr>indexed := indexed st + 1\<rparr>) w"
    by (simp del: index_all_loop.simps)
next
  assume "(\<forall>d \<in> set docs. collection w (''doc_'' @ str_int (d_id d) @ ''_chunk_0'') \<noteq> None) \<and>
    paperless_get_all_documents svc w = docs"
  with index_all_loop_chunked [of docs w svc "\<lparr>indexed = 0, skipped = 0, failed = 0\<rparr>"]
  show "index_all_documents svc w =
        Some (\<lparr>indexed =
                 int (length (filter (\<lambda>d. collection w (''doc_'' @ str_int (d_id d)) = None) docs)),
               skipped =
                 int (length (filter (\<lambda>d. collection w (''doc_'' @ str_int (d_id d)) \<noteq> None) docs)),
               failed = 0\<rparr>, w)"
    by (simp add: index_all_documents_def)
next
  show "\<exists>r. index_all_documents svc w = Some r"
    unfolding index_all_documents_def by (rule index_all_loop_total)
qed

text \<open>
  A first run on the empty collection indexes document 7 (one fetch, one embedding, one
  chunk added); a second run finds the first chunk and counts the document as indexed
  again, leaving the world as it is.
\<close>

lemma empty_world_unchunked: "collection empty_world (''doc_'' @ str_int (d_id doc7)) = None"
  by (simp add: empty_world_def)

lemma indexed_world_keys:
  "collection indexed_world (''doc_'' @ str_int (d_id doc7)) = None"
  "collection indexed_world (''doc_'' @ str_int (d_id doc7) @ ''_chunk_0'') \<noteq> None"
  by (simp_all add: indexed_world_def doc7_def str_int_def digits_of.simps)

theorem index_all_skip_check_witness:
  "index_all_documents sample_services empty_world =
     Some (\<lparr>indexed = 1, skipped = 0, failed = 0\<rparr>, indexed_world) \<and>
   index_all_documents sample_services indexed_world =
     Some (\<lparr>indexed = 1, skipped = 0, failed = 0\<rparr>, indexed_world) \<and>
   fetched indexed_world = [7] \<and> add_calls indexed_world = [''doc_7_chunk_0'']"
proof -
  have doc: "index_document sample_services (d_id doc7) False empty_world = Some (True, indexed_world)"
    using index_document_sample by (simp add: doc7_def)
  have all: "paperless_get_all_documents sample_services w = [doc7]" for w
    by (simp add: sample_services_def)
  from index_all_skip_check [where svc = sample_services and w = empty_world and doc = doc7
      and docs = "[]" and st = "\<lparr>indexed = 0, skipped = 0, failed = 0\<rparr>" and ok = True
      and ?w1.0 = indexed_world]
    empty_world_unchunked doc
  have first: "index_all_documents sample_services empty_world =
     Some (\<lparr>indexed = 1, skipped = 0, failed = 0\<rparr>, indexed_world)"
    by (simp add: index_all_documents_def all del: index_all_loop.simps(2))
  from index_all_skip_check [where svc = sample_services and w = indexed_world
      and docs = "[doc7]"] indexed_world_keys
  have second: "index_all_documents sample_services indexed_world =
     Some (\<lparr>indexed = 1, skipped = 0, failed = 0\<rparr>, indexed_world)"
    by (simp add: all)
  from first second show ?thesis
    by (simp add: indexed_world_def)
qed

text \<open>
  The claim as stated fails when the collection also holds the un-chunked key of a
  chunked document, as \<^verbatim>\<open>VectorStore.add_documents_batch\<close> or an index built before chunking
  leaves it: the document is counted as skipped.
\<close>

lemma legacy_world_keys:
  "collection legacy_world (''doc_'' @ str_int (d_id doc7)) \<noteq> None"
  "collection legacy_world (''doc_'' @ str_int (d_id doc7) @ ''_chunk_0'') \<noteq> None"
  by (simp_all add: legacy_world_def indexed_world_def doc7_def str_int_def digits_of.simps)

theorem index_all_legacy_key_counterexample:
  "document_exists legacy_world (StrId (first_chunk_id 7)) \<and>
   index_all_documents sample_services legacy_world =
     Some (\<lparr>indexed = 0, skipped = 1, failed = 0\<rparr>, legacy_world)"
proof -
  have "paperless_get_all_documents sample_services legacy_world = [doc7]"
    by (simp add: sample_services_def)
  with legacy_world_keys index_all_loop_skip [of legacy_world doc7 sample_services "[]"
      "\<lparr>indexed = 0, skipped = 0, failed = 0\<rparr>"]
  have "index_all_documents sample_services legacy_world =
     Some (\<lparr>indexed = 0, skipped = 1, failed = 0\<rparr>, legacy_world)"
    by (simp add: index_all_documents_def del: index_all_loop.simps(2))
  moreover from legacy_world_keys(2) have "document_exists legacy_world (StrId (first_chunk_id 7))"
    by (simp add: document_exists_first_chunk doc7_def)
  ultimately show ?thesis by simp
qed

subsection \<open>Floats\<close>

lemma normalise_unfold:
  "normalise n q e =
     (if n = 0 then (q, e)
      else if q < 2 ^ 52 then normalise (n - 1) (q * 2) (e - 1)
      else if 2 ^ 53 \<le> q then normalise (n - 1) (q / 2) (e + 1)
      else (q, e))"
  by (cases n) simp_all

lemmas float_eval = py_float_def normalise_unfold round_half_even_def pow2_def

text \<open>The literals .05, .1, .2, .3, .4, .5, .6 and .7 as Python reads them.\<close>

lemma float_literals:
  "py_float (1 / 20) = 3602879701896397 / 72057594037927936"
  "py_float (1 / 10) = 3602879701896397 / 36028797018963968"
  "py_float (1 / 5) = 3602879701896397 / 18014398509481984"
  "py_float (3 / 10) = 5404319552844595 / 18014398509481984"
  "py_float (2 / 5) = 3602879701896397 / 9007199254740992"
  "py_float (1 / 2) = 1 / 2"
  "py_float (3 / 5) = 5404319552844595 / 9007199254740992"
  "py_float (7 / 10) = 3152519739159347 / 4503599627370496"
  by (simp_all add: float_eval del: normalise.simps)

subsection \<open>Multi-query retrieval\<close>

lemma dedup_loop_acc: "dedup_loop xs seen acc = acc @ dedup_loop xs seen []"
proof (induction xs arbitrary: seen acc)
  case Nil
  then show ?case by simp
next
  case (Cons x xs)
  show ?case
    using Cons.IH [of "insert (r_doc_id x) seen" "acc @ [x]"]
      Cons.IH [of "insert (r_doc_id x) seen" "[x]"] Cons.IH [of seen acc]
    by (simp add: Let_def)
qed

lemma dedup_loop_Cons:
  "dedup_loop (x # xs) seen [] =
     (if r_doc_id x \<notin> seen then x # dedup_loop xs (insert (r_doc_id x) seen) []
      else dedup_loop xs seen [])"
  using dedup_loop_acc [of xs "insert (r_doc_id x) seen" "[x]"] by (simp add: Let_def)

lemma dedup_loop_ids:
  "r_doc_id ` set (dedup_loop xs seen []) = r_doc_id ` set xs - seen"
  by (induction xs arbitrary: seen) (auto simp: dedup_loop_Cons simp del: dedup_loop.simps(2))

lemma dedup_loop_distinct: "distinct (map r_doc_id (dedup_loop xs seen []))"
proof (induction xs arbitrary: seen)
  case Nil
  then show ?case by simp
next
  case (Cons x xs)
  have "r_doc_id x \<notin> r_doc_id ` set (dedup_loop xs (insert (r_doc_id x) seen) [])"
    by (simp add: dedup_loop_ids)
  with Cons show ?case by (simp add: dedup_loop_Cons del: dedup_loop.simps(2))
qed

lemma dedup_loop_first:
  "r \<in> set (dedup_loop xs seen []) \<Longrightarrow>
   r_doc_id r \<notin> seen \<and> List.find (\<lambda>x. r_doc_id x = r_doc_id r) xs = Some r"
proof (induction xs arbitrary: seen)
  case Nil
  then show ?case by simp
next
  case (Cons x xs)
  show ?case
  proof (cases "r_doc_id x \<in> seen")
    case True
    with Cons.prems have "r \<in> set (dedup_loop xs seen [])"
      by (simp add: dedup_loop_Cons del: dedup_loop.simps(2))
    from Cons.IH [OF this] True show ?thesis by auto
  next
    case False
    with Cons.prems have "r = x \<or> r \<in> set (dedup_loop xs (insert (r_doc_id x) seen) [])"
      by (simp add: dedup_loop_Cons del: dedup_loop.simps(2))
    then show ?thesis
    proof
      assume "r = x"
      with False show ?thesis by simp
    next
      assume "r \<in> set (dedup_loop xs (insert (r_doc_id x) seen) [])"
      from Cons.IH [OF this] show ?thesis by auto
    qed
  qed
qed

lemma dedup_loop_subseq: "subseq (dedup_loop xs seen []) xs"
  by (induction xs arbitrary: seen) (auto simp: dedup_loop_Cons simp del: dedup_loop.simps(2))

lemma slice_0: "0 \<le> n \<Longrightarrow> slice xs 0 n = take (nat n) xs"
  by (auto simp: slice_def clamp_index_def Let_def min_def)

lemma multi_queries_sample: "multi_queries sample_qa ''q'' True = [''q'', ''v1'', ''v2'']"
  by (simp add: multi_queries_def sample_qa_def generate_multi_queries_def Let_def
      strip_def is_space_def strip_numbering_def is_digit_def slice_def clamp_index_def)

lemma all_results_sample:
  "all_results sample_qa ''q'' n True None = [result_a, result_b, result_a_later]"
  by (simp add: all_results_def multi_queries_sample Let_def)
    (simp add: search_documents_def sample_qa_def Let_def)

lemma sort_sample: "sort_by_distance [result_a, result_b] = Inr [result_a, result_b]"
  by (simp add: sort_by_distance_def get_distance_def sort_key_of_def result_a_def result_b_def
      float_literals)

lemma dedup_sample:
  "dedup_loop [result_a, result_b, result_a_later] {} [] = [result_a, result_b]"
  by (simp add: result_a_def result_b_def result_a_later_def)

lemma multi_sample:
  "search_documents_multi sample_qa ''q'' 10 True None = [result_a, result_b]"
  by (simp add: search_documents_multi_def search_documents_multi_try_def all_results_sample
      dedup_sample sort_sample slice_def clamp_index_def
      del: dedup_loop.simps)







lemma sort_by_distance_raises:
  assumes "2 \<le> length xs" "r \<in> set xs" "r_distance r = PyNone"
  shows "sort_by_distance xs = Inl (TypeError ''not supported between instances'')"
proof -
  from assms(3) have "get_distance r 999 = None"
    by (simp add: get_distance_def)
  with assms(1,2) show ?thesis
    by (auto simp: sort_by_distance_def)
qed











text \<open>A store without distances that returns two chunks of document 3.\<close>

lemma nodist_all_results:
  "all_results nodist_qa ''q'' 10 False None = [result_none, result_none_b, result_none_dup]"
  by (simp add: all_results_def multi_queries_def nodist_qa_def sample_qa_def
      search_documents_def convert_to_chromadb_filter_def Let_def)

lemma nodist_dedup:
  "dedup_loop [result_none, result_none_b, result_none_dup] {} [] = [result_none, result_none_b]"
  by (simp add: result_none_def result_none_b_def result_none_dup_def)

lemma nodist_sort:
  "sort_by_distance [result_none, result_none_b] =
     Inl (TypeError ''not supported between instances'')"
  by (rule sort_by_distance_raises [of _ result_none]) (simp_all add: result_none_def)

text \<open>
  Claim C6 holds of the deduplication loop: the identifiers of the kept results are
  distinct, and each kept result is the first one of its document in the concatenation
  (\<open>dedup_loop_distinct\<close>, \<open>dedup_loop_first\<close>); for the example of the specification the first
  \<open>A\<close> at distance .1 is returned (\<open>multi_sample\<close>).  The claim fails of
  \<^verbatim>\<open>search_documents_multi\<close> when the store reports no distances: the two results left
  after the deduplication hold \<^verbatim>\<open>None\<close>, the sort raises, and the \<^verbatim>\<open>except\<close> branch returns the
  plain search, in which the second chunk of document 3 is still present.
\<close>

theorem multi_query_fallback_keeps_duplicate:
  "all_results nodist_qa ''q'' 10 False None = [result_none, result_none_b, result_none_dup] \<and>
   dedup_loop [result_none, result_none_b, result_none_dup] {} [] =
     [result_none, result_none_b] \<and>
   sort_by_distance [result_none, result_none_b] =
     Inl (TypeError ''not supported between instances'') \<and>
   search_documents_multi nodist_qa ''q'' 10 False None =
     [result_none, result_none_b, result_none_dup] \<and>
   r_doc_id result_none_dup = r_doc_id result_none \<and>
   \<not> distinct (map r_doc_id (search_documents_multi nodist_qa ''q'' 10 False None))"
proof -
  have "search_documents_multi_try nodist_qa ''q'' 10 False None =
      Inl (TypeError ''not supported between instances'')"
    by (simp add: search_documents_multi_try_def nodist_all_results nodist_dedup nodist_sort
        del: dedup_loop.simps)
  then have m: "search_documents_multi nodist_qa ''q'' 10 False None =
      [result_none, result_none_b, result_none_dup]"
    by (simp add: search_documents_multi_def)
      (simp add: search_documents_def nodist_qa_def sample_qa_def
        convert_to_chromadb_filter_def)
  have "r_doc_id result_none_dup = r_doc_id result_none"
    by (simp add: result_none_dup_def)
  with m nodist_all_results nodist_dedup nodist_sort show ?thesis
    by (simp del: dedup_loop.simps)
qed

text \<open>
  With two query variants the fallback is the search for the original query alone, so it
  returns what the first variant found.
\<close>

lemma multi_allnone:
  "search_documents_multi allnone_qa ''q'' n True None = [result_none, result_none_b]"
proof -
  have q: "multi_queries allnone_qa ''q'' True = [''q'', ''Antwort'']"
    by (simp add: multi_queries_def allnone_qa_def sample_qa_def generate_multi_queries_def
        Let_def strip_def is_space_def strip_numbering_def is_digit_def slice_def
        clamp_index_def)
  have s: "search_documents allnone_qa x m None = [result_none, result_none_b]" for x m
    by (simp add: search_documents_def allnone_qa_def sample_qa_def
        convert_to_chromadb_filter_def Let_def)
  have a: "all_results allnone_qa ''q'' n True None =
      [result_none, result_none_b, result_none, result_none_b]"
    by (simp add: all_results_def q s Let_def)
  have d: "dedup_loop [result_none, result_none_b, result_none, result_none_b] {} [] =
      [result_none, result_none_b]"
    by (simp add: result_none_def result_none_b_def)
  from nodist_sort have "search_documents_multi_try allnone_qa ''q'' n True None =
      Inl (TypeError ''not supported between instances'')"
    by (simp add: search_documents_multi_try_def a d del: dedup_loop.simps)
  then show ?thesis
    by (simp add: search_documents_multi_def s)
qed

subsection \<open>Confidence, sources and answers\<close>

lemma py_sum_from_total:
  "\<forall>x \<in> set xs. x \<noteq> None \<Longrightarrow> \<exists>s. py_sum_from acc b xs = Inr s"
  by (induction xs arbitrary: acc b) auto

lemma py_sum_from_error:
  "\<exists>x \<in> set xs. x = None \<Longrightarrow> \<exists>msg. py_sum_from acc b xs = Inl (TypeError msg)"
proof (induction xs arbitrary: acc b)
  case Nil
  then show ?case by simp
next
  case (Cons x xs)
  then show ?case by (cases x) auto
qed

lemma get_distance_None: "get_distance doc dflt = None \<longleftrightarrow> r_distance doc = PyNone"
  by (cases "r_distance doc") (simp_all add: get_distance_def)

text \<open>
  A distance \<^verbatim>\<open>None\<close> among the first three results makes \<^verbatim>\<open>sum\<close> raise; otherwise a level is
  returned.
\<close>

lemma estimate_confidence_none:
  assumes "\<exists>doc \<in> set (take 3 docs). r_distance doc = PyNone"
  shows "\<exists>msg. estimate_confidence docs answer = Inl (TypeError msg)"
proof -
  from assms have ne: "docs \<noteq> []" by auto
  from assms obtain doc where d: "doc \<in> set (take 3 docs)" "r_distance doc = PyNone"
    by blast
  from d(2) have "get_distance doc 1 = None"
    by (simp add: get_distance_None)
  with d(1) have "None \<in> (\<lambda>doc. get_distance doc 1) ` set (take 3 docs)"
    by (intro image_eqI [of _ _ doc]) simp_all
  then have "\<exists>x \<in> set (map (\<lambda>doc. get_distance doc 1) (take 3 docs)). x = None"
    by simp
  from py_sum_from_error [OF this] obtain msg where
    "py_sum (map (\<lambda>doc. get_distance doc 1) (take 3 docs)) = Inl (TypeError msg)"
    unfolding py_sum_def by blast
  with ne show ?thesis
    by (simp add: estimate_confidence_def slice_0 Let_def)
qed

lemma estimate_confidence_level:
  assumes "docs \<noteq> []" and "\<forall>doc \<in> set (take 3 docs). r_distance doc \<noteq> PyNone"
  shows "\<exists>c. estimate_confidence docs answer = Inr c"
proof -
  have "get_distance x 1 \<noteq> None" if "x \<in> set (take 3 docs)" for x
    using that assms(2) get_distance_None by blast
  then have "\<forall>x \<in> set (map (\<lambda>doc. get_distance doc 1) (take 3 docs)). x \<noteq> None"
    by (simp del: not_None_eq)
  from py_sum_from_total [OF this] obtain s where
    s: "py_sum (map (\<lambda>doc. get_distance doc 1) (take 3 docs)) = Inr s"
    unfolding py_sum_def by blast
  from assms(1) have "hd docs \<in> set (take 3 docs)"
    by (cases docs) simp_all
  with assms(2) obtain b where b: "get_distance (hd docs) 1 = Some b"
    by (cases "get_distance (hd docs) 1") (auto simp: get_distance_None)
  from assms(1) s b show ?thesis
    by (simp add: estimate_confidence_def slice_0 Let_def)
qed

lemma has_negative_replicate: "\<not> has_negative (replicate n (CHR ''a''))"
proof -
  have lower: "py_lower (replicate n (CHR ''a'')) = replicate n (CHR ''a'')"
    by (simp add: py_lower_def py_lower_char_def)
  have no: "\<not> py_in (c # cs) (replicate n (CHR ''a''))" if "c \<noteq> CHR ''a''" for c cs
    using that by (induction n) auto
  show ?thesis
    by (simp add: has_negative_def lower negative_phrases_def no)
qed

lemma has_negative_Antwort: "\<not> has_negative ''Antwort''"
  by (simp add: has_negative_def negative_phrases_def py_lower_def py_lower_char_def)

text \<open>
  The example of the specification: distances .1, .2 and .3, an answer of 150 characters.
  The score is 40 + 30 + 15 + 15 = 100.
\<close>

lemma estimate_example:
  "estimate_confidence [result_a, result_b, result_c3] long_answer = Inr High"
  by (simp add: estimate_confidence_def slice_def clamp_index_def Let_def py_sum_def
      get_distance_def result_a_def result_b_def result_c3_def has_negative_replicate
      long_answer_def float_literals)
    (simp add: float_eval del: normalise.simps)

text \<open>
  Rounding is visible at a threshold: the sum of three distances .7 is rounded below 2.1,
  the average is below the float .7 and earns 15 points, not 5; with 3, 15 and 15 points for
  the other factors the score is 48.
\<close>

lemma estimate_rounding:
  "estimate_confidence [result_s1, result_s2, result_s3] long_answer = Inr Medium"
  by (simp add: estimate_confidence_def slice_def clamp_index_def Let_def py_sum_def
      get_distance_def result_s1_def result_s2_def result_s3_def result_b_def
      has_negative_replicate long_answer_def float_literals)
    (simp add: float_eval del: normalise.simps)

lemma estimate_none:
  "estimate_confidence [result_none] ''Antwort'' =
     Inl (TypeError (''unsupported operand type(s) for +: '' @ [CHR 0x27] @ ''int'' @ [CHR 0x27] @
        '' and '' @ [CHR 0x27] @ ''NoneType'' @ [CHR 0x27]))"
  by (simp add: estimate_confidence_def slice_def clamp_index_def Let_def py_sum_def
      get_distance_def result_none_def)

lemma estimate_none_second:
  "estimate_confidence [result_a, result_none, result_b] long_answer =
     Inl (TypeError (''unsupported operand type(s) for +: '' @ [CHR 0x27] @ ''float'' @ [CHR 0x27] @
        '' and '' @ [CHR 0x27] @ ''NoneType'' @ [CHR 0x27]))"
  by (simp add: estimate_confidence_def slice_def clamp_index_def Let_def py_sum_def
      get_distance_def result_none_def result_a_def result_b_def)

lemma estimate_allnone:
  "estimate_confidence [result_none, result_none_b] ''Antwort'' =
     Inl (TypeError (''unsupported operand type(s) for +: '' @ [CHR 0x27] @ ''int'' @ [CHR 0x27] @
        '' and '' @ [CHR 0x27] @ ''NoneType'' @ [CHR 0x27]))"
  by (simp add: estimate_confidence_def slice_def clamp_index_def Let_def py_sum_def
      get_distance_def result_none_def result_none_b_def)

lemma retrieve_allnone: "retrieve allnone_qa ''q'' 3 = [result_none, result_none_b]"
  by (simp add: retrieve_def multi_allnone slice_def clamp_index_def)
    (simp add: allnone_qa_def sample_qa_def)

lemma answer_allnone:
  "answer_question allnone_qa ''q'' 3 True =
     Inr \<lparr>a_answer = ''Es ist ein Fehler aufgetreten: unsupported operand type(s) for +: '' @ [CHR 0x27] @
          ''int'' @ [CHR 0x27] @ '' and '' @ [CHR 0x27] @ ''NoneType'' @ [CHR 0x27],
          a_sources = [], a_confidence = Low\<rparr>"
proof -
  have g: "llm_generate allnone_qa p t = Inr ''Antwort''" for p t
    by (simp add: allnone_qa_def)
  show ?thesis
    by (simp add: answer_question_def answer_question_try_def retrieve_allnone g
        estimate_allnone error_message_def Let_def)
qed

text \<open>
  Claim C5 at a failing input.  The store reports no distances, so the result holds
  \<^verbatim>\<open>None\<close> under \<^verbatim>\<open>'distance'\<close>; the default of \<^verbatim>\<open>doc.get('distance', 1.0)\<close> is for an absent key
  only, and \<^verbatim>\<open>sum\<close> raises \<^verbatim>\<open>TypeError\<close>: no level is returned, and \<^verbatim>\<open>answer_question\<close> replaces
  the generated answer by the error text.  Where the distances are numbers the function
  is as the claim says: the example of the specification gives \<open>High\<close>, and no result gives
  \<open>Low\<close>.
\<close>

theorem estimate_confidence_none_distance:
  "r_distance result_none = PyNone \<and>
   estimate_confidence [result_none] ''Antwort'' =
     Inl (TypeError (''unsupported operand type(s) for +: '' @ [CHR 0x27] @ ''int'' @ [CHR 0x27] @
        '' and '' @ [CHR 0x27] @ ''NoneType'' @ [CHR 0x27])) \<and>
   estimate_confidence [result_a, result_none, result_b] long_answer =
     Inl (TypeError (''unsupported operand type(s) for +: '' @ [CHR 0x27] @ ''float'' @ [CHR 0x27] @
        '' and '' @ [CHR 0x27] @ ''NoneType'' @ [CHR 0x27])) \<and>
   answer_question allnone_qa ''q'' 3 True =
     Inr \<lparr>a_answer = ''Es ist ein Fehler aufgetreten: unsupported operand type(s) for +: '' @ [CHR 0x27] @
          ''int'' @ [CHR 0x27] @ '' and '' @ [CHR 0x27] @ ''NoneType'' @ [CHR 0x27],
          a_sources = [], a_confidence = Low\<rparr> \<and>
   estimate_confidence [result_a, result_b, result_c3] long_answer = Inr High \<and>
   estimate_confidence [] long_answer = Inr Low"
proof -
  have "r_distance result_none = PyNone"
    by (simp add: result_none_def)
  moreover have "estimate_confidence [] long_answer = Inr Low"
    by (simp add: estimate_confidence_def)
  ultimately show ?thesis
    using estimate_none estimate_none_second answer_allnone estimate_example
    by (simp only: simp_thms)
qed

lemma convert_drops_year_and_tags:
  "convert_to_chromadb_filter fs = Some w \<Longrightarrow>
   map_of w ''year'' = None \<and> map_of w ''created_year'' = None \<and> map_of w ''tags'' = None"
  by (auto simp: convert_to_chromadb_filter_def Let_def split: if_splits option.splits)

text \<open>
  Claim C1 at a failing input.  The filters extracted from the question hold a year and a
  tag; the conversion drops both, the store is searched without a where-clause, and the
  retrieval returns a result created in 2023 whose tags do not contain the tag asked for.
  No step of \<^verbatim>\<open>search_documents_multi\<close> filters the ranked list.
\<close>

theorem multi_query_year_filter_dropped:
  "extract_filters filter_qa ''Rechnungen aus 2024'' =
     [(''created_year'', Str ''2024''), (''tags'', Strs [''privat''])] \<and>
   convert_to_chromadb_filter (extract_filters filter_qa ''Rechnungen aus 2024'') = None \<and>
   search_documents_multi filter_qa ''Rechnungen aus 2024'' 10 False None = [result_a] \<and>
   dict_get (r_metadata result_a) ''created'' [] = ''2023-05-01'' \<and>
   dict_get (r_metadata result_a) ''tags'' [] = ''steuer''"
  by (simp add: filter_qa_def sample_qa_def convert_to_chromadb_filter_def
      search_documents_multi_def search_documents_multi_try_def all_results_def
      multi_queries_def search_documents_def Let_def sort_by_distance_def
      sort_key_of_def get_distance_def slice_def clamp_index_def dict_get_def result_a_def)

lemma relevance_score_nonzero:
  "r_distance doc = Dist d \<Longrightarrow> d \<noteq> 0 \<Longrightarrow>
   relevance_score doc = Some (py_float (1 - py_float (d / 2)))"
  by (simp add: relevance_score_def)

lemma relevance_score_sample:
  "relevance_score result_a = Some (4278419646001971 / 4503599627370496)"
  by (simp add: relevance_score_def result_a_def float_literals)
    (simp add: float_eval del: normalise.simps)

lemma retrieve_zero: "retrieve zero_qa ''q'' 3 = [result_zero]"
  by (simp add: retrieve_def zero_qa_def sample_qa_def search_documents_def Let_def
      convert_to_chromadb_filter_def)

lemma estimate_zero: "estimate_confidence [result_zero] ''Antwort'' = Inr High"
  by (simp add: estimate_confidence_def slice_def clamp_index_def Let_def py_sum_def
      get_distance_def result_zero_def has_negative_Antwort float_literals)
    (simp add: float_eval del: normalise.simps)

text \<open>
  Claim C8 at a failing input.  The retrieved result has the distance 0, which is
  available, and the claim gives it the relevance \<open>1 - 0 / 2 = 1\<close>; the code tests the truth
  value of the distance, which is false for 0, and leaves the relevance undefined.
\<close>

theorem relevance_score_zero_distance:
  "r_distance result_zero = Dist 0 \<and>
   relevance_score result_zero = None \<and>
   answer_question zero_qa ''q'' 3 True =
     Inr \<lparr>a_answer = ''Antwort'',
          a_sources =
            [\<lparr>s_doc_id = 5, s_title = ''Z'', s_correspondent = [],
              s_document_type = ''Vertrag'', s_relevance_score = None\<rparr>],
          a_confidence = High\<rparr>"
proof -
  have "answer_question_try zero_qa ''q'' 3 True =
      Inr \<lparr>a_answer = ''Antwort'', a_sources = [source_of result_zero], a_confidence = High\<rparr>"
  proof -
    have g: "llm_generate zero_qa p t = Inr ''Antwort''" for p t
      by (simp add: zero_qa_def)
    show ?thesis
      by (simp add: answer_question_try_def retrieve_zero g estimate_zero Let_def
          strip_def is_space_def)
  qed
  then show ?thesis
    by (simp add: answer_question_def source_of_def relevance_score_def dict_get_def
        result_zero_def)
qed

text \<open>
  Claim C9.  Whatever the services do, also when the generation raises, \<^verbatim>\<open>answer_question\<close>
  returns a dictionary and no exception reaches the caller.  Without retrieved documents
  it holds the could-not-find message and \<open>Low\<close>.  With documents and an empty generation
  it holds the fallback message, \<open>Low\<close> and the sources collected from the retrieved
  documents.  An exception of the generation, and the \<^verbatim>\<open>TypeError\<close> of the confidence
  estimation on a distance \<^verbatim>\<open>None\<close> among the first three documents, become the error text
  with no sources and \<open>Low\<close>.  In the one case left the dictionary holds the stripped answer,
  the sources and an estimated confidence.
\<close>

theorem answer_question_structured:
  "(\<exists>result. answer_question svc question n include_sources = Inr result) \<and>
   (retrieve svc question n = [] \<longrightarrow>
      answer_question svc question n include_sources =
        Inr \<lparr>a_answer =
               ''Ich konnte keine relevanten Dokumente finden, um diese Frage zu beantworten.'',
             a_sources = [], a_confidence = Low\<rparr>) \<and>
   (retrieve svc question n \<noteq> [] \<and>
    llm_generate svc
      (create_rag_prompt question
         (py_join [CHR 0x0A, CHR 0x0A] (context_parts (retrieve svc question n)))) (py_float 0.7) = Inr [] \<longrightarrow>
      answer_question svc question n include_sources =
        Inr \<lparr>a_answer = ''Entschuldigung, ich konnte keine Antwort generieren.'',
             a_sources = (if include_sources then map source_of (retrieve svc question n) else []),
             a_confidence = Low\<rparr>) \<and>
   (retrieve svc question n \<noteq> [] \<and>
    llm_generate svc
      (create_rag_prompt question
         (py_join [CHR 0x0A, CHR 0x0A] (context_parts (retrieve svc question n)))) (py_float 0.7) = Inl e \<longrightarrow>
      answer_question svc question n include_sources =
        Inr \<lparr>a_answer = ''Es ist ein Fehler aufgetreten: '' @ error_message e,
             a_sources = [], a_confidence = Low\<rparr>) \<and>
   (retrieve svc question n \<noteq> [] \<and>
    llm_generate svc
      (create_rag_prompt question
         (py_join [CHR 0x0A, CHR 0x0A] (context_parts (retrieve svc question n)))) (py_float 0.7) = Inr answer \<and>
    answer \<noteq> [] \<and>
    (\<exists>doc \<in> set (take 3 (retrieve svc question n)). r_distance doc = PyNone) \<longrightarrow>
      (\<exists>msg. answer_question svc question n include_sources =
         Inr \<lparr>a_answer = ''Es ist ein Fehler aufgetreten: '' @ msg,
              a_sources = [], a_confidence = Low\<rparr>)) \<and>
   (retrieve svc question n \<noteq> [] \<and>
    llm_generate svc
      (create_rag_prompt question
         (py_join [CHR 0x0A, CHR 0x0A] (context_parts (retrieve svc question n)))) (py_float 0.7) = Inr answer \<and>
    answer \<noteq> [] \<and>
    (\<forall>doc \<in> set (take 3 (retrieve svc question n)). r_distance doc \<noteq> PyNone) \<longrightarrow>
      (\<exists>c. answer_question svc question n include_sources =
         Inr \<lparr>a_answer = strip answer,
              a_sources = (if include_sources then map source_of (retrieve svc question n) else []),
              a_confidence = c\<rparr>))"
proof (intro conjI impI)
  show "\<exists>result. answer_question svc question n include_sources = Inr result"
    by (cases "answer_question_try svc question n include_sources")
      (simp_all add: answer_question_def)
next
  assume "retrieve svc question n = []"
  then show "answer_question svc question n include_sources =
        Inr \<lparr>a_answer =
               ''Ich konnte keine relevanten Dokumente finden, um diese Frage zu beantworten.'',
             a_sources = [], a_confidence = Low\<rparr>"
    by (simp add: answer_question_def answer_question_try_def)
next
  assume "retrieve svc question n \<noteq> [] \<and>
    llm_generate svc
      (create_rag_prompt question
         (py_join [CHR 0x0A, CHR 0x0A] (context_parts (retrieve svc question n)))) (py_float 0.7) = Inr []"
  then show "answer_question svc question n include_sources =
        Inr \<lparr>a_answer = ''Entschuldigung, ich konnte keine Antwort generieren.'',
             a_sources = (if include_sources then map source_of (retrieve svc question n) else []),
             a_confidence = Low\<rparr>"
    by (simp add: answer_question_def answer_question_try_def Let_def)
next
  assume "retrieve svc question n \<noteq> [] \<and>
    llm_generate svc
      (create_rag_prompt question
         (py_join [CHR 0x0A, CHR 0x0A] (context_parts (retrieve svc question n)))) (py_float 0.7) = Inl e"
  then show "answer_question svc question n include_sources =
        Inr \<lparr>a_answer = ''Es ist ein Fehler aufgetreten: '' @ error_message e,
             a_sources = [], a_confidence = Low\<rparr>"
    by (simp add: answer_question_def answer_question_try_def Let_def)
next
  assume a: "retrieve svc question n \<noteq> [] \<and>
    llm_generate svc
      (create_rag_prompt question
         (py_join [CHR 0x0A, CHR 0x0A] (context_parts (retrieve svc question n)))) (py_float 0.7) = Inr answer \<and>
    answer \<noteq> [] \<and>
    (\<exists>doc \<in> set (take 3 (retrieve svc question n)). r_distance doc = PyNone)"
  then obtain msg where
    "estimate_confidence (retrieve svc question n) answer = Inl (TypeError msg)"
    using estimate_confidence_none [of "retrieve svc question n" answer] by blast
  with a have "answer_question svc question n include_sources =
         Inr \<lparr>a_answer = ''Es ist ein Fehler aufgetreten: '' @ msg,
              a_sources = [], a_confidence = Low\<rparr>"
    by (simp add: answer_question_def answer_question_try_def error_message_def Let_def)
  then show "\<exists>msg. answer_question svc question n include_sources =
         Inr \<lparr>a_answer = ''Es ist ein Fehler aufgetreten: '' @ msg,
              a_sources = [], a_confidence = Low\<rparr>"
    by blast
next
  assume a: "retrieve svc question n \<noteq> [] \<and>
    llm_generate svc
      (create_rag_prompt question
         (py_join [CHR 0x0A, CHR 0x0A] (context_parts (retrieve svc question n)))) (py_float 0.7) = Inr answer \<and>
    answer \<noteq> [] \<and>
    (\<forall>doc \<in> set (take 3 (retrieve svc question n)). r_distance doc \<noteq> PyNone)"
  then obtain c where "estimate_confidence (retrieve svc question n) answer = Inr c"
    using estimate_confidence_level [of "retrieve svc question n" answer] by blast
  with a have "answer_question svc question n include_sources =
         Inr \<lparr>a_answer = strip answer,
              a_sources = (if include_sources then map source_of (retrieve svc question n) else []),
              a_confidence = c\<rparr>"
    by (simp add: answer_question_def answer_question_try_def Let_def)
  then show "\<exists>c. answer_question svc question n include_sources =
         Inr \<lparr>a_answer = strip answer,
              a_sources = (if include_sources then map source_of (retrieve svc question n) else []),
              a_confidence = c\<rparr>"
    by blast
qed

text \<open>
  Four runs: no embedding for the query, so nothing is retrieved; a language model that
  is silent; a language model whose reply makes \<^verbatim>\<open>generate\<close> raise, first in the generation
  of the query variants, where the original query is used alone, then in the generation of
  the answer; and a store without distances, where the sort of the retrieval raises, the
  plain search is used, and the confidence estimation raises.
\<close>

lemma retrieve_empty: "retrieve empty_qa ''q'' 3 = []"
  by (simp add: retrieve_def empty_qa_def sample_qa_def search_documents_multi_def
      search_documents_multi_try_def all_results_def multi_queries_def
      generate_multi_queries_def search_documents_def Let_def sort_by_distance_def
      slice_def clamp_index_def)

lemma retrieve_silent: "retrieve silent_qa ''q'' 3 = [result_a]"
  by (simp add: retrieve_def silent_qa_def sample_qa_def search_documents_def Let_def
      convert_to_chromadb_filter_def)

lemma raising_queries: "generate_multi_queries raising_qa ''q'' 2 = [''q'']"
  by (simp add: generate_multi_queries_def raising_qa_def)

lemma retrieve_raising: "retrieve raising_qa ''q'' 3 = [result_a]"
proof -
  have e: "use_multi_query_env raising_qa"
    by (simp add: raising_qa_def sample_qa_def)
  have s: "search_documents raising_qa ''q'' m None = [result_a]" for m
    by (simp add: search_documents_def raising_qa_def sample_qa_def
        convert_to_chromadb_filter_def Let_def)
  have a: "all_results raising_qa ''q'' 6 True None = [result_a]"
    by (simp add: all_results_def multi_queries_def e raising_queries s Let_def)
  have "search_documents_multi raising_qa ''q'' 6 True None = [result_a]"
    by (simp add: search_documents_multi_def search_documents_multi_try_def a
        sort_by_distance_def slice_def clamp_index_def)
  with e show ?thesis
    by (simp add: retrieve_def slice_def clamp_index_def)
qed

theorem answer_question_structured_witness:
  "answer_question empty_qa ''q'' 3 True =
     Inr \<lparr>a_answer =
            ''Ich konnte keine relevanten Dokumente finden, um diese Frage zu beantworten.'',
          a_sources = [], a_confidence = Low\<rparr> \<and>
   answer_question silent_qa ''q'' 3 True =
     Inr \<lparr>a_answer = ''Entschuldigung, ich konnte keine Antwort generieren.'',
          a_sources = [source_of result_a], a_confidence = Low\<rparr> \<and>
   answer_question raising_qa ''q'' 3 True =
     Inr \<lparr>a_answer = ''Es ist ein Fehler aufgetreten: '' @ [CHR 0x27] @ ''NoneType'' @
            [CHR 0x27] @ '' object has no attribute '' @ [CHR 0x27] @ ''strip'' @ [CHR 0x27],
          a_sources = [], a_confidence = Low\<rparr> \<and>
   (\<exists>msg. answer_question allnone_qa ''q'' 3 True =
      Inr \<lparr>a_answer = ''Es ist ein Fehler aufgetreten: '' @ msg,
           a_sources = [], a_confidence = Low\<rparr>) \<and>
   retrieve allnone_qa ''q'' 3 = [result_none, result_none_b] \<and>
   (\<exists>c. answer_question zero_qa ''q'' 3 True =
      Inr \<lparr>a_answer = ''Antwort'', a_sources = [source_of result_zero], a_confidence = c\<rparr>)"
proof -
  have silent: "llm_generate silent_qa p t = Inr []" for p t
    by (simp add: silent_qa_def)
  have raising: "llm_generate raising_qa p t = Inl strip_error" for p t
    by (simp add: raising_qa_def)
  have allnone: "llm_generate allnone_qa p t = Inr ''Antwort''" for p t
    by (simp add: allnone_qa_def)
  have zero: "llm_generate zero_qa p t = Inr ''Antwort''" for p t
    by (simp add: zero_qa_def)
  have 1: "answer_question empty_qa ''q'' 3 True =
     Inr \<lparr>a_answer =
            ''Ich konnte keine relevanten Dokumente finden, um diese Frage zu beantworten.'',
          a_sources = [], a_confidence = Low\<rparr>"
    using answer_question_structured [of empty_qa "''q''" 3 True] retrieve_empty
    by simp
  have 2: "answer_question silent_qa ''q'' 3 True =
     Inr \<lparr>a_answer = ''Entschuldigung, ich konnte keine Antwort generieren.'',
          a_sources = [source_of result_a], a_confidence = Low\<rparr>"
    using answer_question_structured [of silent_qa "''q''" 3 True] retrieve_silent
    by (simp add: silent)
  have 3: "answer_question raising_qa ''q'' 3 True =
     Inr \<lparr>a_answer = ''Es ist ein Fehler aufgetreten: '' @ error_message strip_error,
          a_sources = [], a_confidence = Low\<rparr>"
    using answer_question_structured [of raising_qa "''q''" 3 True strip_error] retrieve_raising
    by (simp add: raising)
  have 4: "\<exists>msg. answer_question allnone_qa ''q'' 3 True =
      Inr \<lparr>a_answer = ''Es ist ein Fehler aufgetreten: '' @ msg,
           a_sources = [], a_confidence = Low\<rparr>"
    using answer_question_structured [of allnone_qa "''q''" 3 True _ "''Antwort''"]
      retrieve_allnone
    by (simp add: allnone result_none_def)
  have 5: "\<exists>c. answer_question zero_qa ''q'' 3 True =
      Inr \<lparr>a_answer = ''Antwort'', a_sources = [source_of result_zero], a_confidence = c\<rparr>"
    using answer_question_structured [of zero_qa "''q''" 3 True _ "''Antwort''"]
      retrieve_zero
    by (simp add: zero result_zero_def strip_def is_space_def)
  from 1 2 3 4 5 retrieve_allnone show ?thesis
    by (simp add: error_message_def strip_error_def)
qed

end
